theory Spec2Isabelle
  imports Main
begin

section \<open>The Kijko launcher (launch-kijko.py)\<close>

text \<open>
  The launcher is one function, \<open>main\<close>, that talks to the operating system: it reads,
  writes and deletes a marker file, probes a process, spawns a child, sleeps, opens a
  browser and copies the child's output to the console. The model makes each of these
  explicit:
  \<^item> the file system is a map from absolute paths to nodes and is part of the
    state that \<open>main\<close> threads through;
  \<^item> every completed effect is appended to a trace of events, in program order;
  \<^item> the answers of the outside world (the process table, the spawn, the clock, the
    browser, the child's output stream) are the fields of a record \<open>world\<close>; each
    answer is either a normal result or a raised exception;
  \<^item> a Python exception is a value; \<open>main\<close> either returns an exit code or lets an
    exception escape;
  \<^item> the monitoring loop may run for ever, so \<open>main\<close> takes a bound on the number of
    loop iterations and answers \<open>Running\<close> when the bound is used up.

  Exceptions come from two places: from the file operations, as the state of the file
  system decides (a missing path, a directory where a file is expected), and from the
  answers of the world. \<open>print\<close> and \<open>os.path.exists\<close> do not raise. The
  interpreter's cap on the length of decimal text (4300 digits unless configured
  otherwise) is not modelled; process identifiers are far below it.
\<close>

subsection \<open>Python strings and integers\<close>

text \<open>
  A Python \<open>str\<close> is modelled as a list of characters with code points below 256.
  \<open>is_space\<close> is \<open>str.isspace\<close> on one such character, \<open>strip\<close> is \<open>str.strip()\<close>.
\<close>

definition is_space :: "char \<Rightarrow> bool" where
  "is_space c \<longleftrightarrow>
     c \<in> set [CHR 0x09, CHR 0x0A, CHR 0x0B, CHR 0x0C, CHR 0x0D,
              CHR 0x1C, CHR 0x1D, CHR 0x1E, CHR 0x1F, CHR 0x20, CHR 0x85, CHR 0xA0]"

definition strip :: "string \<Rightarrow> string" where
  "strip s = rev (dropWhile is_space (rev (dropWhile is_space s)))"

definition is_digit :: "char \<Rightarrow> bool" where
  "is_digit c \<longleftrightarrow> c \<in> set ''0123456789''"

definition digit_val :: "char \<Rightarrow> int" where
  "digit_val c = int (of_char c) - 48"

definition digit_char :: "nat \<Rightarrow> char" where
  "digit_char d = ''0123456789'' ! d"

text \<open>\<open>str(n)\<close> for a Python integer: the decimal digits, with a minus sign when negative.\<close>

fun dec :: "nat \<Rightarrow> string" where
  "dec n = (if n < 10 then [digit_char n] else dec (n div 10) @ [digit_char (n mod 10)])"

declare dec.simps [simp del]

definition py_str :: "int \<Rightarrow> string" where
  "py_str n = (if n < 0 then CHR ''-'' # dec (nat (- n)) else dec (nat n))"

text \<open>
  Python exceptions, by the classes that the handlers of \<open>main\<close> tell apart.
  \<open>FileNotFoundError\<close> is a subclass of \<open>OSError\<close>; \<open>OtherOSError\<close> stands for every
  other subclass of \<open>OSError\<close> (\<open>ProcessLookupError\<close>, \<open>PermissionError\<close>,
  \<open>IsADirectoryError\<close>, ...); \<open>ValueError\<close> includes \<open>UnicodeDecodeError\<close>;
  \<open>OtherException\<close> is any other subclass of \<open>Exception\<close>; \<open>KeyboardInterrupt\<close> stands
  for the classes that derive from \<open>BaseException\<close> but not from \<open>Exception\<close>.
  The string is the exception's message, \<open>str(e)\<close>.
\<close>

datatype exn_class = FileNotFoundError | ValueError | OtherOSError | OtherException | KeyboardInterrupt

datatype exn = Exn (cls: exn_class) (msg: string)

definition is_OSError :: "exn \<Rightarrow> bool" where
  "is_OSError e \<longleftrightarrow> cls e = FileNotFoundError \<or> cls e = OtherOSError"

definition is_Exception :: "exn \<Rightarrow> bool" where
  "is_Exception e \<longleftrightarrow> cls e \<noteq> KeyboardInterrupt"

text \<open>
  \<open>int(s)\<close> in base 10: surrounding white space is dropped, then an optional sign, then
  decimal digits in which single underscores may stand between two digits. Anything else
  raises \<open>ValueError\<close>. \<open>digits_value\<close> is entered after one digit has been read.
\<close>

fun digits_value :: "int \<Rightarrow> string \<Rightarrow> int option" where
  "digits_value acc [] = Some acc"
| "digits_value acc (c # cs) =
     (if is_digit c then digits_value (10 * acc + digit_val c) cs
      else if c = CHR ''_'' then
        (case cs of
           [] \<Rightarrow> None
         | d # ds \<Rightarrow> if is_digit d then digits_value (10 * acc + digit_val d) ds else None)
      else None)"

definition unsigned_value :: "string \<Rightarrow> int option" where
  "unsigned_value s =
     (case s of
        [] \<Rightarrow> None
      | c # cs \<Rightarrow> if is_digit c then digits_value (digit_val c) cs else None)"

definition signed_value :: "string \<Rightarrow> int option" where
  "signed_value s =
     (case s of
        [] \<Rightarrow> None
      | c # cs \<Rightarrow>
          if c = CHR ''-'' then map_option uminus (unsigned_value cs)
          else if c = CHR ''+'' then unsigned_value cs
          else unsigned_value s)"

definition py_int :: "string \<Rightarrow> exn + int" where
  "py_int s =
     (case signed_value (strip s) of
        None \<Rightarrow> Inl (Exn ValueError ''invalid literal for int() with base 10'')
      | Some v \<Rightarrow> Inr v)"

subsection \<open>File system, events and state\<close>

text \<open>
  A path names a regular file with its text, a directory, or nothing. Permissions,
  symbolic links and other programs acting on the file system are outside the model:
  the launcher is the only actor.
\<close>

datatype node = File string | Dir

type_synonym filesystem = "string \<Rightarrow> node option"

text \<open>
  The completed effects of a run, in program order. \<open>Spawn\<close> carries the argument
  vector, the working directory and the environment given to the child; \<open>OpenBrowser\<close>
  is a call of \<open>webbrowser.open\<close> that returned; \<open>ReadLine\<close> is one completed read
  from the child's output stream. A call that raises leaves no event. The liveness
  probe (signal 0) has no effect and leaves no event either.
\<close>

datatype event =
    Print string
  | Chdir string
  | Remove string
  | Write string string
  | Spawn "string list" string "string \<Rightarrow> string option"
  | Sleep nat
  | OpenBrowser string
  | ReadLine

record state =
  fs :: filesystem
  trace :: "event list"

text \<open>How a run of \<open>main\<close> (or a part of it) ends.\<close>

datatype outcome = Returned int | Raised exn | Running

text \<open>
  The outside world as \<open>main\<close> sees it. \<open>None\<close> from \<open>kill\<close>, \<open>sleep\<close> and
  \<open>webbrowser_open\<close> means that the call returned; \<open>Some e\<close> that it raised \<open>e\<close>.
  \<open>popen\<close> answers with the new child's process identifier. \<open>readline i\<close> is the
  answer to the read made in iteration \<open>i\<close> of the monitoring loop (the empty string at
  end of stream) and \<open>poll i\<close> that of the poll made in the same iteration (\<open>None\<close>
  while the child is alive, its exit status afterwards).
\<close>

record world =
  environ :: "string \<Rightarrow> string option"
  kill :: "int \<Rightarrow> nat \<Rightarrow> exn option"
  popen :: "string list \<Rightarrow> string \<Rightarrow> (string \<Rightarrow> string option) \<Rightarrow> exn + int"
  sleep :: "nat \<Rightarrow> exn option"
  webbrowser_open :: "string \<Rightarrow> exn option"
  readline :: "nat \<Rightarrow> exn + string"
  poll :: "nat \<Rightarrow> int option"

definition emit :: "event \<Rightarrow> state \<Rightarrow> state" where
  "emit e st = st\<lparr>trace := trace st @ [e]\<rparr>"

definition prints :: "string list \<Rightarrow> state \<Rightarrow> state" where
  "prints ls st = st\<lparr>trace := trace st @ map Print ls\<rparr>"

definition quoted :: "string \<Rightarrow> string" where
  "quoted p = CHR 0x27 # p @ [CHR 0x27]"

definition os_path_exists :: "string \<Rightarrow> state \<Rightarrow> bool" where
  "os_path_exists p st \<longleftrightarrow> fs st p \<noteq> None"

definition os_chdir :: "string \<Rightarrow> state \<Rightarrow> exn + state" where
  "os_chdir p st =
     (case fs st p of
        None \<Rightarrow> Inl (Exn FileNotFoundError (''[Errno 2] No such file or directory: '' @ quoted p))
      | Some (File _) \<Rightarrow> Inl (Exn OtherOSError (''[Errno 20] Not a directory: '' @ quoted p))
      | Some Dir \<Rightarrow> Inr (emit (Chdir p) st))"

definition open_read :: "string \<Rightarrow> state \<Rightarrow> exn + string" where
  "open_read p st =
     (case fs st p of
        None \<Rightarrow> Inl (Exn FileNotFoundError (''[Errno 2] No such file or directory: '' @ quoted p))
      | Some Dir \<Rightarrow> Inl (Exn OtherOSError (''[Errno 21] Is a directory: '' @ quoted p))
      | Some (File s) \<Rightarrow> Inr s)"

definition open_write :: "string \<Rightarrow> string \<Rightarrow> state \<Rightarrow> exn + state" where
  "open_write p s st =
     (case fs st p of
        Some Dir \<Rightarrow> Inl (Exn OtherOSError (''[Errno 21] Is a directory: '' @ quoted p))
      | _ \<Rightarrow> Inr (st\<lparr>fs := (fs st)(p \<mapsto> File s), trace := trace st @ [Write p s]\<rparr>))"

definition os_remove :: "string \<Rightarrow> state \<Rightarrow> exn + state" where
  "os_remove p st =
     (case fs st p of
        None \<Rightarrow> Inl (Exn FileNotFoundError (''[Errno 2] No such file or directory: '' @ quoted p))
      | Some Dir \<Rightarrow> Inl (Exn OtherOSError (''[Errno 21] Is a directory: '' @ quoted p))
      | Some (File _) \<Rightarrow> Inr (st\<lparr>fs := (fs st)(p := None), trace := trace st @ [Remove p]\<rparr>))"

subsection \<open>Configuration (lines 12 to 17)\<close>

definition APP_DIR :: string where
  "APP_DIR = ''/home/david/Projects/Kijko/MVP/MVP_Kijko''"

definition PID_FILE :: string where
  "PID_FILE = ''/tmp/kijko-app.pid''"

definition NODE_BIN :: string where
  "NODE_BIN = ''/home/david/.nvm/versions/node/v24.4.1/bin''"

definition NPM :: string where
  "NPM = NODE_BIN @ ''/npm''"

definition NODE :: string where
  "NODE = NODE_BIN @ ''/node''"

definition PORT :: int where
  "PORT = 5173"

definition url :: string where
  "url = ''http://localhost:'' @ py_str PORT"

subsection \<open>main, up to the spawn (lines 19 to 56)\<close>

definition banner_lines :: "string list" where
  "banner_lines =
     [''=== Kijko Python Launcher ==='',
      ''App Directory: '' @ APP_DIR,
      ''Node Binary: '' @ NODE,
      ''NPM Binary: '' @ NPM]"

text \<open>Lines 28 to 36: \<open>Some 1\<close> is the early \<open>return 1\<close>, \<open>None\<close> falls through.\<close>

definition check_binaries :: "state \<Rightarrow> int option \<times> state" where
  "check_binaries st =
     (if \<not> os_path_exists NODE st then
        (Some 1, prints [''Error: Node.js not found at '' @ NODE,
                         ''Please check your Node.js installation''] st)
      else if \<not> os_path_exists NPM st then
        (Some 1, prints [''Error: NPM not found at '' @ NPM,
                         ''Please check your NPM installation''] st)
      else (None, st))"

text \<open>Lines 41 and 42: read the marker, strip it, parse it.\<close>

definition read_pid :: "state \<Rightarrow> exn + int" where
  "read_pid st =
     (case open_read PID_FILE st of
        Inl e \<Rightarrow> Inl e
      | Inr content \<Rightarrow> py_int (strip content))"

text \<open>
  Lines 50 to 52, the handler of the inner \<open>try\<close>: an \<open>OSError\<close> removes the marker
  and falls through; any other exception, and one raised by the removal, goes on to the
  outer handler.
\<close>

definition stale_handler :: "exn \<Rightarrow> state \<Rightarrow> outcome option \<times> state" where
  "stale_handler e st =
     (if is_OSError e then
        (case os_remove PID_FILE st of
           Inl e' \<Rightarrow> (Some (Raised e'), st)
         | Inr st' \<Rightarrow> (None, st'))
      else (Some (Raised e), st))"

text \<open>Lines 45 to 52, the inner \<open>try\<close> statement.\<close>

definition probe :: "world \<Rightarrow> int \<Rightarrow> state \<Rightarrow> outcome option \<times> state" where
  "probe w pid st =
     (case kill w pid 0 of
        Some e \<Rightarrow> stale_handler e st
      | None \<Rightarrow>
          (let st1 = prints [''Kijko app is already running (PID: '' @ py_str pid @ '')''] st
           in case webbrowser_open w url of
                Some e \<Rightarrow> stale_handler e st1
              | None \<Rightarrow> (Some (Returned 0), emit (OpenBrowser url) st1)))"

text \<open>
  Lines 39 to 56. The outer handler takes \<open>ValueError\<close> and \<open>FileNotFoundError\<close>,
  removes the marker if it is there and falls through; every other exception leaves
  \<open>main\<close>.
\<close>

definition check_running :: "world \<Rightarrow> state \<Rightarrow> outcome option \<times> state" where
  "check_running w st =
     (if os_path_exists PID_FILE st then
        (case (case read_pid st of
                 Inl e \<Rightarrow> (Some (Raised e), st)
               | Inr pid \<Rightarrow> probe w pid st) of
           (Some (Raised e), st1) \<Rightarrow>
             if cls e = ValueError \<or> cls e = FileNotFoundError then
               (if os_path_exists PID_FILE st1 then
                  (case os_remove PID_FILE st1 of
                     Inl e' \<Rightarrow> (Some (Raised e'), st1)
                   | Inr st2 \<Rightarrow> (None, st2))
                else (None, st1))
             else (Some (Raised e), st1)
         | r \<Rightarrow> r)
      else (None, st))"

text \<open>
  Lines 19 to 56: the banner, the change of directory (outside every \<open>try\<close>, so its
  exception leaves \<open>main\<close>), the two checks. \<open>None\<close> means that the run goes on to
  the spawn.
\<close>

definition preflight :: "world \<Rightarrow> filesystem \<Rightarrow> outcome option \<times> state" where
  "preflight w fs0 =
     (let st0 = prints banner_lines \<lparr>fs = fs0, trace = []\<rparr>
      in case os_chdir APP_DIR st0 of
           Inl e \<Rightarrow> (Some (Raised e), st0)
         | Inr st1 \<Rightarrow>
             (case check_binaries st1 of
                (Some r, st2) \<Rightarrow> (Some (Returned r), st2)
              | (None, st2) \<Rightarrow> check_running w st2))"

subsection \<open>main, the spawn and the monitoring (lines 58 to 119)\<close>

definition argv :: "string list" where
  "argv = [''bash'', ''-c'',
           ''source /home/david/.nvm/nvm.sh && nvm use 24.4.1 && npm run dev'']"

text \<open>Lines 61 to 64.\<close>

definition child_env :: "world \<Rightarrow> string \<Rightarrow> string option" where
  "child_env w =
     (environ w)
       (''PATH'' \<mapsto> NODE_BIN @ '':'' @ (case environ w ''PATH'' of None \<Rightarrow> [] | Some p \<Rightarrow> p),
        ''NVM_BIN'' \<mapsto> NODE_BIN,
        ''NVM_DIR'' \<mapsto> ''/home/david/.nvm'')"

text \<open>Lines 82 and 83.\<close>

definition write_pid :: "int \<Rightarrow> state \<Rightarrow> exn + state" where
  "write_pid pid st = open_write PID_FILE (py_str pid) st"

text \<open>Lines 69 to 97: spawn, write the marker, wait, open the browser.\<close>

definition start_child :: "world \<Rightarrow> state \<Rightarrow> (exn + int) \<times> state" where
  "start_child w st =
     (case popen w argv APP_DIR (child_env w) of
        Inl e \<Rightarrow> (Inl e, st)
      | Inr pid \<Rightarrow>
          (let st1 = emit (Spawn argv APP_DIR (child_env w)) st
           in case write_pid pid st1 of
                Inl e \<Rightarrow> (Inl e, st1)
              | Inr st2 \<Rightarrow>
                  (let st3 = prints [''Kijko app started with PID: '' @ py_str pid,
                                     ''PID saved to '' @ PID_FILE,
                                     ''Waiting for server to start...''] st2
                   in case sleep w 3 of
                        Some e \<Rightarrow> (Inl e, st3)
                      | None \<Rightarrow>
                          (let st4 = prints [''Opening browser...''] (emit (Sleep 3) st3)
                           in case webbrowser_open w url of
                                Some e \<Rightarrow> (Inl e, st4)
                              | None \<Rightarrow>
                                  (Inr pid,
                                   prints [''Kijko app is now running!'',
                                           ''Use the close button in the app or run kill-kijko.sh to stop it.'']
                                     (emit (OpenBrowser url) st4))))))"

text \<open>
  Lines 100 to 105, with a bound on the number of iterations: \<open>monitor w n i st\<close> runs
  at most \<open>n\<close> iterations from iteration \<open>i\<close>. \<open>None\<close> is the \<open>break\<close>.
\<close>

fun monitor :: "world \<Rightarrow> nat \<Rightarrow> nat \<Rightarrow> state \<Rightarrow> outcome option \<times> state" where
  "monitor w 0 i st = (Some Running, st)"
| "monitor w (Suc n) i st =
     (case readline w i of
        Inl e \<Rightarrow> (Some (Raised e), st)
      | Inr output \<Rightarrow>
          (let st1 = emit ReadLine st
           in if output = [] \<and> poll w i \<noteq> None then (None, st1)
              else monitor w n (Suc i) (if output \<noteq> [] then prints [strip output] st1 else st1)))"

text \<open>Lines 108 and 109.\<close>

definition cleanup :: "state \<Rightarrow> outcome option \<times> state" where
  "cleanup st =
     (if os_path_exists PID_FILE st then
        (case os_remove PID_FILE st of
           Inl e \<Rightarrow> (Some (Raised e), st)
         | Inr st' \<Rightarrow> (None, st'))
      else (None, st))"

text \<open>Lines 69 to 109, the body of the \<open>try\<close> statement.\<close>

definition run_child :: "world \<Rightarrow> nat \<Rightarrow> state \<Rightarrow> outcome option \<times> state" where
  "run_child w n st =
     (case start_child w st of
        (Inl e, st1) \<Rightarrow> (Some (Raised e), st1)
      | (Inr pid, st1) \<Rightarrow>
          (case monitor w n 0 st1 of
             (Some r, st2) \<Rightarrow> (Some r, st2)
           | (None, st2) \<Rightarrow> cleanup st2))"

text \<open>
  Lines 58 to 119. The first handler takes \<open>FileNotFoundError\<close>, the second every
  other instance of \<open>Exception\<close>; an exception of neither kind leaves \<open>main\<close>.
\<close>

definition spawn_and_monitor :: "world \<Rightarrow> nat \<Rightarrow> state \<Rightarrow> outcome \<times> state" where
  "spawn_and_monitor w n st =
     (case run_child w n (prints [''Starting Kijko app...''] st) of
        (Some (Raised e), st1) \<Rightarrow>
          if cls e = FileNotFoundError then
            (Returned 1, prints [''Error: Could not execute '' @ NPM,
                                 ''Please check your Node.js/NPM installation''] st1)
          else if is_Exception e then
            (Returned 1, prints [''Error starting Kijko app: '' @ msg e] st1)
          else (Raised e, st1)
      | (Some r, st1) \<Rightarrow> (r, st1)
      | (None, st1) \<Rightarrow> (Returned 0, st1))"

definition main :: "world \<Rightarrow> nat \<Rightarrow> filesystem \<Rightarrow> outcome \<times> state" where
  "main w n fs0 =
     (case preflight w fs0 of
        (Some r, st) \<Rightarrow> (r, st)
      | (None, st) \<Rightarrow> spawn_and_monitor w n st)"

subsection \<open>Reading a trace, and the child's behaviour\<close>

fun browser_opens :: "event list \<Rightarrow> string list" where
  "browser_opens [] = []"
| "browser_opens (OpenBrowser u # es) = u # browser_opens es"
| "browser_opens (_ # es) = browser_opens es"

fun spawns :: "event list \<Rightarrow> nat" where
  "spawns [] = 0"
| "spawns (Spawn a d e # es) = Suc (spawns es)"
| "spawns (_ # es) = spawns es"

fun removes :: "event list \<Rightarrow> string list" where
  "removes [] = []"
| "removes (Remove p # es) = p # removes es"
| "removes (_ # es) = removes es"

fun reads :: "event list \<Rightarrow> nat" where
  "reads [] = 0"
| "reads (ReadLine # es) = Suc (reads es)"
| "reads (_ # es) = reads es"

text \<open>The trace of every run that gets as far as the check of the executables.\<close>

definition startup_trace :: "event list" where
  "startup_trace = map Print banner_lines @ [Chdir APP_DIR]"

text \<open>
  Iteration \<open>i\<close> of the loop neither raises nor breaks; the loop goes through its first
  \<open>k\<close> iterations; the child is seen to have exited in iteration \<open>k\<close>.
\<close>

definition keeps_streaming :: "world \<Rightarrow> nat \<Rightarrow> bool" where
  "keeps_streaming w i \<longleftrightarrow>
     (case readline w i of
        Inl e \<Rightarrow> False
      | Inr output \<Rightarrow> \<not> (output = [] \<and> poll w i \<noteq> None))"

definition streams_until :: "world \<Rightarrow> nat \<Rightarrow> bool" where
  "streams_until w k \<longleftrightarrow> list_all (keeps_streaming w) [0..<k]"

definition child_exits_at :: "world \<Rightarrow> nat \<Rightarrow> bool" where
  "child_exits_at w k \<longleftrightarrow> streams_until w k \<and> readline w k = Inr [] \<and> poll w k \<noteq> None"

text \<open>The run gets past lines 19 to 56 and goes on to the spawn.\<close>

definition reaches_spawn :: "world \<Rightarrow> filesystem \<Rightarrow> bool" where
  "reaches_spawn w fs0 \<longleftrightarrow> fst (preflight w fs0) = None"

text \<open>
  The first exception of the \<open>try\<close> statement of lines 66 to 109 is \<open>e\<close>: raised by
  the spawn, by the sleep, by the opening of the browser, or by the read of iteration
  \<open>k\<close> of the loop after \<open>k\<close> quiet iterations.
\<close>

definition raised_in_try :: "world \<Rightarrow> nat \<Rightarrow> exn \<Rightarrow> bool" where
  "raised_in_try w k e \<longleftrightarrow>
     (case popen w argv APP_DIR (child_env w) of
        Inl e' \<Rightarrow> e' = e
      | Inr pid \<Rightarrow>
          (case sleep w 3 of
             Some e' \<Rightarrow> e' = e
           | None \<Rightarrow>
               (case webbrowser_open w url of
                  Some e' \<Rightarrow> e' = e
                | None \<Rightarrow> streams_until w k \<and> readline w k = Inl e)))"

text \<open>What the monitoring loop adds to the trace.\<close>

fun is_stream_event :: "event \<Rightarrow> bool" where
  "is_stream_event ReadLine = True"
| "is_stream_event (Print s) = True"
| "is_stream_event _ = False"

text \<open>The effects of lines 69 to 97 when nothing fails, for child \<open>pid\<close>.\<close>

definition launch_events :: "world \<Rightarrow> int \<Rightarrow> event list" where
  "launch_events w pid =
     [Spawn argv APP_DIR (child_env w),
      Write PID_FILE (py_str pid),
      Print (''Kijko app started with PID: '' @ py_str pid),
      Print (''PID saved to '' @ PID_FILE),
      Print ''Waiting for server to start...'',
      Sleep 3,
      Print ''Opening browser...'',
      OpenBrowser url,
      Print ''Kijko app is now running!'',
      Print ''Use the close button in the app or run kill-kijko.sh to stop it.'']"

subsection \<open>Concrete worlds\<close>

text \<open>A file system with the application directory and both executables, and no marker.\<close>

definition fs_ready :: filesystem where
  "fs_ready = [APP_DIR \<mapsto> Dir, NODE \<mapsto> File [], NPM \<mapsto> File []]"

text \<open>
  A world in which no probed process is alive, the spawn gives child 4242, and the child
  prints one line and exits with the given status.
\<close>

definition calm_world :: "int \<Rightarrow> world" where
  "calm_world status =
     \<lparr>environ = Map.empty,
      kill = (\<lambda>pid sig. Some (Exn OtherOSError ''[Errno 3] No such process'')),
      popen = (\<lambda>a d e. Inr 4242),
      sleep = (\<lambda>t. None),
      webbrowser_open = (\<lambda>u. None),
      readline = (\<lambda>i. Inr (if i = 0 then ''ready'' @ [CHR 0x0A] else [])),
      poll = (\<lambda>i. if i = 0 then None else Some status)\<rparr>"

text \<open>The same file system with a marker file of the given content.\<close>

definition fs_marked :: "string \<Rightarrow> filesystem" where
  "fs_marked content = fs_ready(PID_FILE \<mapsto> File content)"

text \<open>Every probed process is alive.\<close>

definition live_world :: world where
  "live_world = (calm_world 0)\<lparr>kill := (\<lambda>pid sig. None)\<rparr>"

text \<open>The user interrupts the launcher during the start-up delay.\<close>

definition interrupted_sleep_world :: world where
  "interrupted_sleep_world = (calm_world 0)\<lparr>sleep := (\<lambda>t. Some (Exn KeyboardInterrupt []))\<rparr>"

text \<open>The user interrupts the launcher while it waits for the child's first line.\<close>

definition interrupted_read_world :: world where
  "interrupted_read_world = (calm_world 0)\<lparr>readline := (\<lambda>i. Inl (Exn KeyboardInterrupt []))\<rparr>"

text \<open>The shell that the spawn names is not found.\<close>

definition no_shell_world :: world where
  "no_shell_world =
     (calm_world 0)\<lparr>popen := (\<lambda>a d e.
        Inl (Exn FileNotFoundError (''[Errno 2] No such file or directory: '' @ quoted ''bash'')))\<rparr>"

text \<open>The child's second line cannot be decoded (\<open>UnicodeDecodeError\<close>, a \<open>ValueError\<close>).\<close>

definition garbled_world :: world where
  "garbled_world =
     (calm_world 0)\<lparr>readline := (\<lambda>i.
        if i = 0 then Inr (''ready'' @ [CHR 0x0A])
        else Inl (Exn ValueError ''invalid start byte''))\<rparr>"

text \<open>
  A world with no live process, in which the liveness probe behaves as \<open>os.kill\<close> does
  on Linux: a process identifier that does not fit the C type raises \<open>OverflowError\<close>
  (an \<open>Exception\<close> that is neither an \<open>OSError\<close> nor a \<open>ValueError\<close>), the
  identifiers 0 and -1 address the caller's process group and every process, so the
  call returns, and any other identifier raises \<open>ProcessLookupError\<close>.
\<close>

definition c_pid_world :: world where
  "c_pid_world =
     (calm_world 0)\<lparr>kill := (\<lambda>pid sig.
        if pid < - 9223372036854775808 then
          Some (Exn OtherException ''Python int too large to convert to C long'')
        else if 9223372036854775807 < pid then
          Some (Exn OtherException ''Python int too large to convert to C long'')
        else if pid < - 2147483648 then
          Some (Exn OtherException ''signed integer is less than minimum'')
        else if 2147483647 < pid then
          Some (Exn OtherException ''signed integer is greater than maximum'')
        else if pid = 0 then None
        else if pid = - 1 then None
        else Some (Exn OtherOSError ''[Errno 3] No such process''))\<rparr>"


section \<open>Properties\<close>

text \<open>Unfolding sets for evaluation at concrete inputs.\<close>

lemmas path_defs = APP_DIR_def PID_FILE_def NODE_def NPM_def NODE_BIN_def

lemmas py_int_defs = py_int_def strip_def is_space_def signed_value_def unsigned_value_def
  is_digit_def digit_val_def

subsection \<open>Decimal text of an integer, and reading it back\<close>

lemma digit_char_is_digit: "d < 10 \<Longrightarrow> is_digit (digit_char d)"
proof -
  assume "d < 10"
  then have "d \<in> {0, 1, 2, 3, 4, 5, 6, 7, 8, 9}" by auto
  then show ?thesis by (auto simp: is_digit_def digit_char_def)
qed

lemma digit_val_digit_char: "d < 10 \<Longrightarrow> digit_val (digit_char d) = int d"
proof -
  assume "d < 10"
  then have "d \<in> {0, 1, 2, 3, 4, 5, 6, 7, 8, 9}" by auto
  then show ?thesis by (auto simp: digit_val_def digit_char_def)
qed

lemma is_digit_not_space: "is_digit c \<Longrightarrow> \<not> is_space c"
  by (auto simp: is_digit_def is_space_def)

lemma is_digit_not_sign: "is_digit c \<Longrightarrow> c \<noteq> CHR ''-'' \<and> c \<noteq> CHR ''+''"
  by (auto simp: is_digit_def)

lemma dec_nonempty: "dec n \<noteq> []"
  by (subst dec.simps) simp

lemma dec_digits: "list_all is_digit (dec n)"
proof (induction n rule: dec.induct)
  case (1 n)
  show ?case
  proof (cases "n < 10")
    case True
    then show ?thesis by (subst dec.simps) (simp add: digit_char_is_digit)
  next
    case False
    with "1" have "list_all is_digit (dec (n div 10))" by simp
    moreover have "is_digit (digit_char (n mod 10))" by (simp add: digit_char_is_digit)
    ultimately show ?thesis using False by (subst dec.simps) simp
  qed
qed

lemma digits_value_snoc:
  "list_all is_digit xs \<Longrightarrow> is_digit d \<Longrightarrow>
   digits_value acc (xs @ [d]) = map_option (\<lambda>v. 10 * v + digit_val d) (digits_value acc xs)"
  by (induction xs arbitrary: acc) simp_all

lemma unsigned_value_snoc:
  assumes "xs \<noteq> []" "list_all is_digit xs" "is_digit d"
  shows "unsigned_value (xs @ [d]) = map_option (\<lambda>v. 10 * v + digit_val d) (unsigned_value xs)"
proof -
  from assms(1) obtain c cs where xs: "xs = c # cs" by (cases xs) auto
  with assms(2) have "is_digit c" "list_all is_digit cs" by simp_all
  then show ?thesis
    using assms(3) by (simp add: xs unsigned_value_def digits_value_snoc)
qed

lemma unsigned_value_dec: "unsigned_value (dec n) = Some (int n)"
proof (induction n rule: dec.induct)
  case (1 n)
  show ?case
  proof (cases "n < 10")
    case True
    then show ?thesis
      by (subst dec.simps) (simp add: unsigned_value_def digit_char_is_digit digit_val_digit_char)
  next
    case False
    with "1" have ih: "unsigned_value (dec (n div 10)) = Some (int (n div 10))" by simp
    have d: "is_digit (digit_char (n mod 10))" by (simp add: digit_char_is_digit)
    have "unsigned_value (dec (n div 10) @ [digit_char (n mod 10)]) =
          Some (10 * int (n div 10) + int (n mod 10))"
      by (simp add: unsigned_value_snoc [OF dec_nonempty dec_digits d] ih digit_val_digit_char)
    moreover have "10 * int (n div 10) + int (n mod 10) = int n"
      by (simp add: zdiv_int zmod_int)
    ultimately show ?thesis using False by (subst dec.simps) simp
  qed
qed

lemma signed_value_dec: "signed_value (dec n) = Some (int n)"
proof -
  obtain c cs where s: "dec n = c # cs" using dec_nonempty [of n] by (cases "dec n") auto
  with dec_digits [of n] have "is_digit c" by simp
  then have "c \<noteq> CHR ''-''" "c \<noteq> CHR ''+''" using is_digit_not_sign by auto
  then have "signed_value (dec n) = unsigned_value (dec n)"
    by (simp add: signed_value_def s)
  then show ?thesis by (simp add: unsigned_value_dec)
qed

lemma signed_value_py_str: "signed_value (py_str n) = Some n"
proof (cases "n < 0")
  case True
  then show ?thesis by (simp add: py_str_def signed_value_def unsigned_value_dec)
next
  case False
  then show ?thesis by (simp add: py_str_def signed_value_dec)
qed

lemma strip_id:
  assumes "s \<noteq> []" "\<not> is_space (hd s)" "\<not> is_space (last s)"
  shows "strip s = s"
proof -
  from assms(1,2) have a: "dropWhile is_space s = s" by (cases s) auto
  from assms(1,3) have "dropWhile is_space (rev s) = rev s"
    by (cases "rev s") (auto simp: hd_rev [symmetric])
  with a show ?thesis by (simp add: strip_def)
qed

lemma dec_last_digit: "is_digit (last (dec n))"
  using dec_digits [of n] dec_nonempty [of n] by (simp add: list_all_iff)

lemma dec_hd_digit: "is_digit (hd (dec n))"
  using dec_digits [of n] dec_nonempty [of n] by (simp add: list_all_iff)

lemma strip_py_str: "strip (py_str n) = py_str n"
proof (rule strip_id)
  show "py_str n \<noteq> []" by (simp add: py_str_def dec_nonempty)
  show "\<not> is_space (hd (py_str n))"
    using dec_hd_digit [of "nat n"] by (auto simp: py_str_def is_space_def dest: is_digit_not_space)
  show "\<not> is_space (last (py_str n))"
    using dec_last_digit by (auto simp: py_str_def dec_nonempty dest: is_digit_not_space)
qed

lemma py_int_py_str: "py_int (strip (py_str n)) = Inr n"
  by (simp add: py_int_def strip_py_str signed_value_py_str)

subsection \<open>State, trace and the stages before the spawn\<close>

lemma fs_prints: "fs (prints ls st) = fs st"
  by (simp add: prints_def)

lemma trace_prints: "trace (prints ls st) = trace st @ map Print ls"
  by (simp add: prints_def)

lemma fs_emit: "fs (emit e st) = fs st"
  by (simp add: emit_def)

lemma trace_emit: "trace (emit e st) = trace st @ [e]"
  by (simp add: emit_def)

lemma exists_prints: "os_path_exists p (prints ls st) = os_path_exists p st"
  by (simp add: os_path_exists_def fs_prints)

lemma exists_emit: "os_path_exists p (emit e st) = os_path_exists p st"
  by (simp add: os_path_exists_def fs_emit)

lemma preflight_no_app_dir:
  "fs0 APP_DIR \<noteq> Some Dir \<Longrightarrow> \<exists>e. fst (preflight w fs0) = Some (Raised e)"
  by (cases "fs0 APP_DIR"; cases "the (fs0 APP_DIR)")
     (auto simp: preflight_def os_chdir_def prints_def Let_def)

lemma preflight_checks:
  assumes "fs0 APP_DIR = Some Dir" "fs0 NODE \<noteq> None" "fs0 NPM \<noteq> None"
  shows "preflight w fs0 = check_running w \<lparr>fs = fs0, trace = startup_trace\<rparr>"
  using assms
  by (simp add: preflight_def os_chdir_def check_binaries_def os_path_exists_def
      prints_def emit_def startup_trace_def)


lemma check_running_alive:
  assumes "fs st PID_FILE = Some (File content)" "py_int (strip content) = Inr pid"
    and "kill w pid 0 = None" "webbrowser_open w url = None"
  shows "check_running w st =
     (Some (Returned 0),
      st\<lparr>trace := trace st @
         [Print (''Kijko app is already running (PID: '' @ py_str pid @ '')''), OpenBrowser url]\<rparr>)"
  using assms
  by (simp add: check_running_def os_path_exists_def read_pid_def open_read_def probe_def
      prints_def emit_def)

lemma check_running_stale:
  assumes "fs st PID_FILE = Some (File content)" "py_int (strip content) = Inr pid"
    and "kill w pid 0 = Some e" "is_OSError e"
  shows "check_running w st =
     (None, st\<lparr>fs := (fs st)(PID_FILE := None), trace := trace st @ [Remove PID_FILE]\<rparr>)"
  using assms
  by (simp add: check_running_def os_path_exists_def read_pid_def open_read_def probe_def
      stale_handler_def os_remove_def)

lemma py_int_error: "py_int s = Inl e \<Longrightarrow> cls e = ValueError"
  by (auto simp: py_int_def split: option.splits)

lemma check_running_invalid:
  assumes "fs st PID_FILE = Some (File content)" "py_int (strip content) = Inl e"
  shows "check_running w st =
     (None, st\<lparr>fs := (fs st)(PID_FILE := None), trace := trace st @ [Remove PID_FILE]\<rparr>)"
  using assms py_int_error [OF assms(2)]
  by (simp add: check_running_def os_path_exists_def read_pid_def open_read_def os_remove_def)


lemma url_eq: "url = ''http://localhost:5173''"
  by (simp add: url_def PORT_def py_str_def dec.simps digit_char_def)

lemma stream_events_spawns: "list_all is_stream_event evs \<Longrightarrow> spawns evs = 0"
  by (induction evs rule: spawns.induct) simp_all

lemma stream_events_removes: "list_all is_stream_event evs \<Longrightarrow> removes evs = []"
  by (induction evs rule: removes.induct) simp_all

lemma stream_events_opens: "list_all is_stream_event evs \<Longrightarrow> browser_opens evs = []"
  by (induction evs rule: browser_opens.induct) simp_all

lemma removes_append: "removes (xs @ ys) = removes xs @ removes ys"
  by (induction xs rule: removes.induct) simp_all

lemma spawns_append: "spawns (xs @ ys) = spawns xs + spawns ys"
  by (induction xs rule: spawns.induct) simp_all

lemma reads_append: "reads (xs @ ys) = reads xs + reads ys"
  by (induction xs rule: reads.induct) simp_all

lemma browser_opens_append: "browser_opens (xs @ ys) = browser_opens xs @ browser_opens ys"
  by (induction xs rule: browser_opens.induct) simp_all

lemma monitor_fs: "fs (snd (monitor w n i st)) = fs st"
  by (induction n arbitrary: i st) (auto simp: Let_def emit_def prints_def split: sum.splits)

lemma monitor_trace:
  "\<exists>evs. trace (snd (monitor w n i st)) = trace st @ evs \<and> list_all is_stream_event evs"
proof (induction n arbitrary: i st)
  case 0
  show ?case by simp
next
  case (Suc n)
  show ?case
  proof (cases "readline w i")
    case (Inl e)
    then show ?thesis by simp
  next
    case (Inr ln)
    show ?thesis
    proof (cases "ln = [] \<and> poll w i \<noteq> None")
      case True
      with Inr show ?thesis by (simp add: emit_def)
    next
      case False
      define st' where "st' = (if ln \<noteq> [] then prints [strip ln] (emit ReadLine st) else emit ReadLine st)"
      from Suc [of "Suc i" st'] obtain evs where
        evs: "trace (snd (monitor w n (Suc i) st')) = trace st' @ evs" "list_all is_stream_event evs"
        by blast
      have "trace st' = trace st @ (if ln \<noteq> [] then [ReadLine, Print (strip ln)] else [ReadLine])"
        by (simp add: st'_def emit_def prints_def)
      then obtain evs0 where evs0: "trace st' = trace st @ evs0" "list_all is_stream_event evs0"
        by (cases "ln \<noteq> []") auto
      have "monitor w (Suc n) i st = monitor w n (Suc i) st'"
        using Inr False by (auto simp: st'_def Let_def)
      with evs evs0 show ?thesis by auto
    qed
  qed
qed

lemma monitor_exit:
  "\<forall>j<k. keeps_streaming w (i + j) \<Longrightarrow> readline w (i + k) = Inr [] \<Longrightarrow> poll w (i + k) \<noteq> None
   \<Longrightarrow> k < n \<Longrightarrow> fst (monitor w n i st) = None"
proof (induction k arbitrary: n i st)
  case 0
  then obtain m where "n = Suc m" by (cases n) auto
  with 0 show ?case by (simp add: Let_def)
next
  case (Suc k)
  then obtain m where n: "n = Suc m" "k < m" by (cases n) auto
  from Suc.prems(1) have "keeps_streaming w i" by force
  then obtain ln where out: "readline w i = Inr ln" "\<not> (ln = [] \<and> poll w i \<noteq> None)"
    by (auto simp: keeps_streaming_def split: sum.splits)
  have "\<forall>j<k. keeps_streaming w (Suc i + j)"
    using Suc.prems(1) by (metis Suc_less_eq add_Suc_shift)
  then have "\<And>st'. fst (monitor w m (Suc i) st') = None"
    using Suc.IH [of "Suc i" m] Suc.prems(2,3) n(2) by simp
  with out show ?case by (auto simp: n(1) Let_def)
qed

lemma monitor_raise:
  "\<forall>j<k. keeps_streaming w (i + j) \<Longrightarrow> readline w (i + k) = Inl e
   \<Longrightarrow> k < n \<Longrightarrow> fst (monitor w n i st) = Some (Raised e)"
proof (induction k arbitrary: n i st)
  case 0
  then obtain m where "n = Suc m" by (cases n) auto
  with 0 show ?case by simp
next
  case (Suc k)
  then obtain m where n: "n = Suc m" "k < m" by (cases n) auto
  from Suc.prems(1) have "keeps_streaming w i" by force
  then obtain ln where out: "readline w i = Inr ln" "\<not> (ln = [] \<and> poll w i \<noteq> None)"
    by (auto simp: keeps_streaming_def split: sum.splits)
  have "\<forall>j<k. keeps_streaming w (Suc i + j)"
    using Suc.prems(1) by (metis Suc_less_eq add_Suc_shift)
  then have "\<And>st'. fst (monitor w m (Suc i) st') = Some (Raised e)"
    using Suc.IH [of "Suc i" m] Suc.prems(2) n(2) by simp
  with out show ?case by (auto simp: n(1) Let_def)
qed

lemma streams_until_iff: "streams_until w k \<longleftrightarrow> (\<forall>j<k. keeps_streaming w j)"
  by (auto simp: streams_until_def list_all_iff)

lemma check_running_marker:
  "check_running w st = (None, st') \<Longrightarrow> fs st' PID_FILE = None"
  by (auto simp: check_running_def os_path_exists_def probe_def stale_handler_def os_remove_def
      Let_def prints_def emit_def
      split: if_splits sum.splits option.splits prod.splits outcome.splits node.splits)

subsection \<open>The spawn, the loop and the clean-up\<close>

lemma start_child_ok:
  assumes "popen w argv APP_DIR (child_env w) = Inr pid" "fs st PID_FILE \<noteq> Some Dir"
    and "sleep w 3 = None" "webbrowser_open w url = None"
  shows "start_child w st =
     (Inr pid, \<lparr>fs = (fs st)(PID_FILE \<mapsto> File (py_str pid)),
               trace = trace st @ launch_events w pid\<rparr>)"
  using assms
  by (cases "fs st PID_FILE"; cases "the (fs st PID_FILE)")
     (simp_all add: start_child_def write_pid_def open_write_def emit_def prints_def
        launch_events_def)

lemma start_child_spawn_fails:
  "popen w argv APP_DIR (child_env w) = Inl e \<Longrightarrow> start_child w st = (Inl e, st)"
  by (simp add: start_child_def)

lemma start_child_sleep_fails:
  assumes "popen w argv APP_DIR (child_env w) = Inr pid" "fs st PID_FILE \<noteq> Some Dir"
    and "sleep w 3 = Some e"
  shows "start_child w st =
     (Inl e, \<lparr>fs = (fs st)(PID_FILE \<mapsto> File (py_str pid)),
              trace = trace st @ take 5 (launch_events w pid)\<rparr>)"
  using assms
  by (cases "fs st PID_FILE"; cases "the (fs st PID_FILE)")
     (simp_all add: start_child_def write_pid_def open_write_def emit_def prints_def
        launch_events_def)

lemma start_child_browser_fails:
  assumes "popen w argv APP_DIR (child_env w) = Inr pid" "fs st PID_FILE \<noteq> Some Dir"
    and "sleep w 3 = None" "webbrowser_open w url = Some e"
  shows "start_child w st =
     (Inl e, \<lparr>fs = (fs st)(PID_FILE \<mapsto> File (py_str pid)),
              trace = trace st @ take 7 (launch_events w pid)\<rparr>)"
  using assms
  by (cases "fs st PID_FILE"; cases "the (fs st PID_FILE)")
     (simp_all add: start_child_def write_pid_def open_write_def emit_def prints_def
        launch_events_def)

lemma cleanup_file:
  "fs st PID_FILE = Some (File s) \<Longrightarrow>
   cleanup st = (None, st\<lparr>fs := (fs st)(PID_FILE := None), trace := trace st @ [Remove PID_FILE]\<rparr>)"
  by (simp add: cleanup_def os_path_exists_def os_remove_def)

lemma cleanup_absent: "fs st PID_FILE = None \<Longrightarrow> cleanup st = (None, st)"
  by (simp add: cleanup_def os_path_exists_def)

lemma cleanup_ok:
  "fs st PID_FILE \<noteq> Some Dir \<Longrightarrow> fst (cleanup st) = None \<and> fs (snd (cleanup st)) PID_FILE = None"
  by (cases "fs st PID_FILE"; cases "the (fs st PID_FILE)")
     (simp_all add: cleanup_file cleanup_absent)

lemma reaches_spawn_marker:
  assumes "reaches_spawn w fs0"
  shows "fs (snd (preflight w fs0)) PID_FILE = None"
proof -
  obtain st where p: "preflight w fs0 = (None, st)"
    using assms by (cases "preflight w fs0") (simp add: reaches_spawn_def)
  then have "\<exists>st0. check_running w st0 = (None, st)"
    by (auto simp: preflight_def Let_def split: sum.splits prod.splits option.splits)
  then show ?thesis using p check_running_marker by auto
qed

lemma main_reaches_spawn:
  "reaches_spawn w fs0 \<Longrightarrow> main w n fs0 = spawn_and_monitor w n (snd (preflight w fs0))"
  by (cases "preflight w fs0") (simp add: main_def reaches_spawn_def)

text \<open>The try body when the child is seen to exit in iteration k.\<close>

lemma run_child_exit:
  assumes "popen w argv APP_DIR (child_env w) = Inr pid" "fs st PID_FILE = None"
    and "sleep w 3 = None" "webbrowser_open w url = None"
    and "child_exits_at w k" "k < n"
  shows "fst (run_child w n st) = None"
    and "fs (snd (run_child w n st)) = (fs st)(PID_FILE := None)"
    and "\<exists>evs. trace (snd (run_child w n st)) = trace st @ launch_events w pid @ evs @ [Remove PID_FILE]
           \<and> list_all is_stream_event evs"
proof -
  define st1 where "st1 = \<lparr>fs = (fs st)(PID_FILE \<mapsto> File (py_str pid)),
                           trace = trace st @ launch_events w pid\<rparr>"
  have sc: "start_child w st = (Inr pid, st1)"
    using assms(1-4) by (simp add: start_child_ok st1_def)
  obtain r st2 where m: "monitor w n 0 st1 = (r, st2)" by (cases "monitor w n 0 st1")
  have "fst (monitor w n 0 st1) = None"
    using assms(5,6) monitor_exit [of k w 0 n st1]
    by (simp add: child_exits_at_def streams_until_iff)
  with m have r: "r = None" by simp
  have fs2: "fs st2 = fs st1" using monitor_fs [of w n 0 st1] m by simp
  obtain evs where evs: "trace st2 = trace st1 @ evs" "list_all is_stream_event evs"
    using monitor_trace [of w n 0 st1] m by auto
  have rc: "run_child w n st = cleanup st2"
    by (simp add: run_child_def sc m r)
  have c: "cleanup st2 = (None, st2\<lparr>fs := (fs st2)(PID_FILE := None), trace := trace st2 @ [Remove PID_FILE]\<rparr>)"
    by (rule cleanup_file [of _ "py_str pid"]) (simp add: fs2 st1_def)
  show "fst (run_child w n st) = None" by (simp add: rc c)
  show "fs (snd (run_child w n st)) = (fs st)(PID_FILE := None)"
    by (simp add: rc c fs2 st1_def)
  show "\<exists>evs. trace (snd (run_child w n st)) = trace st @ launch_events w pid @ evs @ [Remove PID_FILE]
           \<and> list_all is_stream_event evs"
    using evs by (simp add: rc c st1_def)
qed

subsection \<open>Traces of the spawn path\<close>

lemma start_child_trace:
  "popen w argv APP_DIR (child_env w) = Inr pid \<Longrightarrow>
   \<exists>evs. trace (snd (start_child w st)) = trace st @ Spawn argv APP_DIR (child_env w) # evs"
  by (auto simp: start_child_def write_pid_def open_write_def emit_def prints_def Let_def
      split: sum.splits option.splits node.splits)

lemma cleanup_trace: "\<exists>evs. trace (snd (cleanup st)) = trace st @ evs"
  by (auto simp: cleanup_def os_remove_def split: option.splits node.splits)

lemma run_child_trace:
  "\<exists>evs. trace (snd (run_child w n st)) = trace (snd (start_child w st)) @ evs"
proof (cases "start_child w st")
  case (Pair r st1)
  show ?thesis
  proof (cases r)
    case (Inl e)
    with Pair show ?thesis by (simp add: run_child_def)
  next
    case (Inr pid)
    obtain m st2 where m: "monitor w n 0 st1 = (m, st2)" by (cases "monitor w n 0 st1")
    obtain evs where evs: "trace st2 = trace st1 @ evs"
      using monitor_trace [of w n 0 st1] m by auto
    show ?thesis
    proof (cases m)
      case None
      obtain evs' where "trace (snd (cleanup st2)) = trace st2 @ evs'"
        using cleanup_trace by blast
      with evs show ?thesis by (simp add: run_child_def Pair Inr m None)
    next
      case (Some a)
      with evs show ?thesis by (simp add: run_child_def Pair Inr m)
    qed
  qed
qed

lemma spawn_and_monitor_trace:
  "\<exists>evs. trace (snd (spawn_and_monitor w n st)) =
          trace (snd (run_child w n (prints [''Starting Kijko app...''] st))) @ evs"
  by (auto simp: spawn_and_monitor_def prints_def split: prod.splits option.splits outcome.splits)

lemma spawn_and_monitor_begins:
  assumes "popen w argv APP_DIR (child_env w) = Inr pid"
  shows "\<exists>evs. trace (snd (spawn_and_monitor w n st)) =
     trace st @ Print ''Starting Kijko app...'' # Spawn argv APP_DIR (child_env w) # evs"
proof -
  define st0 where "st0 = prints [''Starting Kijko app...''] st"
  obtain e1 where "trace (snd (start_child w st0)) = trace st0 @ Spawn argv APP_DIR (child_env w) # e1"
    using start_child_trace [OF assms] by blast
  moreover obtain e2 where "trace (snd (run_child w n st0)) = trace (snd (start_child w st0)) @ e2"
    using run_child_trace by blast
  moreover obtain e3 where "trace (snd (spawn_and_monitor w n st)) = trace (snd (run_child w n st0)) @ e3"
    using spawn_and_monitor_trace [of w n st] unfolding st0_def by blast
  ultimately show ?thesis by (simp add: st0_def prints_def)
qed

lemma spawn_and_monitor_launch:
  assumes "popen w argv APP_DIR (child_env w) = Inr pid" "fs st PID_FILE \<noteq> Some Dir"
    and "sleep w 3 = None" "webbrowser_open w url = None"
  shows "\<exists>evs. trace (snd (spawn_and_monitor w n st)) =
     trace st @ Print ''Starting Kijko app...'' # launch_events w pid @ evs"
proof -
  define st0 where "st0 = prints [''Starting Kijko app...''] st"
  have "fs st0 PID_FILE \<noteq> Some Dir" using assms(2) by (simp add: st0_def prints_def)
  then have "trace (snd (start_child w st0)) = trace st0 @ launch_events w pid"
    using assms by (simp add: start_child_ok)
  moreover obtain e2 where "trace (snd (run_child w n st0)) = trace (snd (start_child w st0)) @ e2"
    using run_child_trace by blast
  moreover obtain e3 where "trace (snd (spawn_and_monitor w n st)) = trace (snd (run_child w n st0)) @ e3"
    using spawn_and_monitor_trace [of w n st] unfolding st0_def by blast
  ultimately show ?thesis by (simp add: st0_def prints_def)
qed

lemma check_running_reads: "reads (trace (snd (check_running w st))) = reads (trace st)"
  by (auto simp: check_running_def os_path_exists_def probe_def stale_handler_def os_remove_def
      Let_def prints_def emit_def reads_append
      split: if_splits sum.splits option.splits prod.splits outcome.splits node.splits)

lemma preflight_reads: "reads (trace (snd (preflight w fs0))) = 0"
  by (auto simp: preflight_def os_chdir_def check_binaries_def check_running_reads Let_def
      prints_def emit_def reads_append banner_lines_def
      split: sum.splits option.splits prod.splits node.splits if_splits)

subsection \<open>How the try statement ends\<close>

lemma preflight_no_marker:
  assumes "fs0 APP_DIR = Some Dir" "fs0 NODE \<noteq> None" "fs0 NPM \<noteq> None" "fs0 PID_FILE = None"
  shows "preflight w fs0 = (None, \<lparr>fs = fs0, trace = startup_trace\<rparr>)"
  using assms by (simp add: preflight_checks check_running_def os_path_exists_def)

lemma reaches_spawn_ready: "reaches_spawn w fs_ready"
proof -
  have "preflight w fs_ready = (None, \<lparr>fs = fs_ready, trace = startup_trace\<rparr>)"
    by (rule preflight_no_marker) (simp_all add: fs_ready_def path_defs)
  then show ?thesis by (simp add: reaches_spawn_def)
qed

lemma monitor_first:
  assumes "readline w i = Inr s"
  shows "\<exists>evs. trace (snd (monitor w (Suc n) i st)) = trace st @ ReadLine # evs"
proof (cases "s = [] \<and> poll w i \<noteq> None")
  case True
  with assms show ?thesis by (simp add: emit_def)
next
  case False
  define st' where "st' = (if s \<noteq> [] then prints [strip s] (emit ReadLine st) else emit ReadLine st)"
  have m: "monitor w (Suc n) i st = monitor w n (Suc i) st'"
    using assms False by (auto simp: st'_def Let_def)
  obtain evs where "trace (snd (monitor w n (Suc i) st')) = trace st' @ evs"
    using monitor_trace by blast
  moreover have "trace st' = trace st @ ReadLine # (if s \<noteq> [] then [Print (strip s)] else [])"
    by (simp add: st'_def emit_def prints_def)
  ultimately show ?thesis unfolding m by simp
qed

lemma spawn_and_monitor_first_read:
  assumes "popen w argv APP_DIR (child_env w) = Inr pid" "fs st PID_FILE \<noteq> Some Dir"
    and "sleep w 3 = None" "webbrowser_open w url = None"
    and "readline w 0 = Inr s"
  shows "\<exists>evs. trace (snd (spawn_and_monitor w (Suc n) st)) =
     trace st @ Print ''Starting Kijko app...'' # launch_events w pid @ ReadLine # evs"
proof -
  define st0 where "st0 = prints [''Starting Kijko app...''] st"
  define st1 where "st1 = \<lparr>fs = (fs st0)(PID_FILE \<mapsto> File (py_str pid)),
                           trace = trace st0 @ launch_events w pid\<rparr>"
  have "fs st0 PID_FILE \<noteq> Some Dir" using assms(2) by (simp add: st0_def prints_def)
  then have sc: "start_child w st0 = (Inr pid, st1)"
    using assms by (simp add: start_child_ok st1_def)
  obtain m st2 where m: "monitor w (Suc n) 0 st1 = (m, st2)" by (cases "monitor w (Suc n) 0 st1")
  obtain e1 where e1: "trace st2 = trace st1 @ ReadLine # e1"
    using monitor_first [OF assms(5), of n st1] m by auto
  have "\<exists>e2. trace (snd (run_child w (Suc n) st0)) = trace st2 @ e2"
  proof (cases m)
    case None
    then show ?thesis using cleanup_trace [of st2]
      by (simp add: run_child_def sc m del: monitor.simps)
  next
    case (Some a)
    then show ?thesis by (simp add: run_child_def sc m del: monitor.simps)
  qed
  then obtain e2 where e2: "trace (snd (run_child w (Suc n) st0)) = trace st2 @ e2" by blast
  obtain e3 where "trace (snd (spawn_and_monitor w (Suc n) st)) = trace (snd (run_child w (Suc n) st0)) @ e3"
    using spawn_and_monitor_trace [of w "Suc n" st] unfolding st0_def by blast
  with e1 e2 show ?thesis by (simp add: st1_def st0_def prints_def)
qed

lemma spawn_and_monitor_exit:
  assumes "fst (run_child w n (prints [''Starting Kijko app...''] st)) = None"
  shows "spawn_and_monitor w n st =
     (Returned 0, snd (run_child w n (prints [''Starting Kijko app...''] st)))"
  using assms
  by (cases "run_child w n (prints [''Starting Kijko app...''] st)")
     (simp add: spawn_and_monitor_def)

lemma spawn_and_monitor_raise:
  assumes "fst (run_child w n (prints [''Starting Kijko app...''] st)) = Some (Raised e)"
  shows "spawn_and_monitor w n st =
     (if cls e = FileNotFoundError then
        (Returned 1, prints [''Error: Could not execute '' @ NPM,
                             ''Please check your Node.js/NPM installation'']
                       (snd (run_child w n (prints [''Starting Kijko app...''] st))))
      else if is_Exception e then
        (Returned 1, prints [''Error starting Kijko app: '' @ msg e]
                       (snd (run_child w n (prints [''Starting Kijko app...''] st))))
      else (Raised e, snd (run_child w n (prints [''Starting Kijko app...''] st))))"
  using assms
  by (cases "run_child w n (prints [''Starting Kijko app...''] st)")
     (simp add: spawn_and_monitor_def)

lemma launch_events_removes: "removes (take j (launch_events w pid)) = []"
proof -
  have "j \<in> {0, 1, 2, 3, 4, 5, 6, 7, 8, 9} \<or> 10 \<le> j" by auto
  then show ?thesis
    by (auto simp: launch_events_def numeral_eq_Suc)
qed

lemma run_child_raise:
  assumes "fs st PID_FILE = None" "raised_in_try w k e" "k < n"
  shows "fst (run_child w n st) = Some (Raised e)"
    and "popen w argv APP_DIR (child_env w) = Inr pid \<Longrightarrow>
         fs (snd (run_child w n st)) = (fs st)(PID_FILE \<mapsto> File (py_str pid))"
    and "\<exists>evs. trace (snd (run_child w n st)) = trace st @ evs \<and> removes evs = []"
proof -
  have nd: "fs st PID_FILE \<noteq> Some Dir" using assms(1) by simp
  let ?goal = "fst (run_child w n st) = Some (Raised e)
    \<and> (\<forall>pid. popen w argv APP_DIR (child_env w) = Inr pid \<longrightarrow>
         fs (snd (run_child w n st)) = (fs st)(PID_FILE \<mapsto> File (py_str pid)))
    \<and> (\<exists>evs. trace (snd (run_child w n st)) = trace st @ evs \<and> removes evs = [])"
  have ?goal
  proof (cases "popen w argv APP_DIR (child_env w)")
    case (Inl e')
    with assms(2) have "e' = e" by (simp add: raised_in_try_def)
    with Inl show ?thesis by (simp add: run_child_def start_child_spawn_fails)
  next
    case (Inr p)
    show ?thesis
    proof (cases "sleep w 3")
      case (Some e')
      with assms(2) Inr have "e' = e" by (simp add: raised_in_try_def)
      with Inr Some nd show ?thesis
        by (simp add: run_child_def start_child_sleep_fails launch_events_removes)
    next
      case None
      show ?thesis
      proof (cases "webbrowser_open w url")
        case (Some e')
        with assms(2) Inr None have "e' = e" by (simp add: raised_in_try_def)
        with Inr None Some nd show ?thesis
          by (simp add: run_child_def start_child_browser_fails launch_events_removes)
      next
        case bNone: None
        define st1 where "st1 = \<lparr>fs = (fs st)(PID_FILE \<mapsto> File (py_str p)),
                                 trace = trace st @ launch_events w p\<rparr>"
        have sc: "start_child w st = (Inr p, st1)"
          using Inr nd None bNone by (simp add: start_child_ok st1_def)
        from assms(2) Inr None bNone have r: "streams_until w k" "readline w k = Inl e"
          by (simp_all add: raised_in_try_def)
        obtain m st2 where m: "monitor w n 0 st1 = (m, st2)" by (cases "monitor w n 0 st1")
        have "fst (monitor w n 0 st1) = Some (Raised e)"
          using r assms(3) monitor_raise [of k w 0 e n st1] by (simp add: streams_until_iff)
        with m have mr: "m = Some (Raised e)" by simp
        have fs2: "fs st2 = fs st1" using monitor_fs [of w n 0 st1] m by simp
        obtain evs where evs: "trace st2 = trace st1 @ evs" "list_all is_stream_event evs"
          using monitor_trace [of w n 0 st1] m by auto
        have "removes (launch_events w p @ evs) = []"
          using launch_events_removes [of 10 w p] evs(2)
          by (simp add: removes_append stream_events_removes launch_events_def)
        moreover have "fs st1 = (fs st)(PID_FILE \<mapsto> File (py_str p))"
          and "trace st1 = trace st @ launch_events w p"
          by (simp_all add: st1_def)
        ultimately show ?thesis
          using evs(1) fs2 Inr by (simp add: run_child_def sc m mr)
      qed
    qed
  qed
  then show "fst (run_child w n st) = Some (Raised e)"
    and "popen w argv APP_DIR (child_env w) = Inr pid \<Longrightarrow>
         fs (snd (run_child w n st)) = (fs st)(PID_FILE \<mapsto> File (py_str pid))"
    and "\<exists>evs. trace (snd (run_child w n st)) = trace st @ evs \<and> removes evs = []"
    by blast+
qed

lemma main_ready:
  "main w n fs_ready = spawn_and_monitor w n \<lparr>fs = fs_ready, trace = startup_trace\<rparr>"
proof -
  have "preflight w fs_ready = (None, \<lparr>fs = fs_ready, trace = startup_trace\<rparr>)"
    by (rule preflight_no_marker) (simp_all add: fs_ready_def path_defs)
  then show ?thesis by (simp add: main_def)
qed

lemma main_raise:
  assumes "reaches_spawn w fs0" "raised_in_try w k e" "k < n"
  defines "st1 \<equiv> snd (run_child w n (prints [''Starting Kijko app...''] (snd (preflight w fs0))))"
  shows "main w n fs0 =
     (if cls e = FileNotFoundError then
        (Returned 1, prints [''Error: Could not execute '' @ NPM,
                             ''Please check your Node.js/NPM installation''] st1)
      else if is_Exception e then
        (Returned 1, prints [''Error starting Kijko app: '' @ msg e] st1)
      else (Raised e, st1))"
proof -
  define st where "st = prints [''Starting Kijko app...''] (snd (preflight w fs0))"
  have "fs st PID_FILE = None"
    using reaches_spawn_marker [OF assms(1)] by (simp add: st_def prints_def)
  then have "fst (run_child w n st) = Some (Raised e)"
    using assms(2,3) by (rule run_child_raise(1))
  then show ?thesis
    unfolding st1_def main_reaches_spawn [OF assms(1)] st_def
    by (rule spawn_and_monitor_raise)
qed

lemma check_running_probe_escapes:
  assumes "fs st PID_FILE = Some (File content)" "py_int (strip content) = Inr pid"
    and "kill w pid 0 = Some e" "cls e = OtherException"
  shows "check_running w st = (Some (Raised e), st)"
  using assms
  by (simp add: check_running_def os_path_exists_def read_pid_def open_read_def probe_def
      stale_handler_def is_OSError_def)

section \<open>The launcher against its specification\<close>

text \<open>
  C1. When the checks of the executables pass, the marker file holds text that parses
  to an integer \<open>pid\<close>, the liveness probe \<open>os.kill(pid, 0)\<close> returns, and the call
  that opens the browser returns, \<open>main\<close> returns 0, has opened the browser exactly
  once, at \<open>http://localhost:5173\<close>, has spawned nothing, and has left the file
  system (the marker included) as it was. The trace is given in full.
\<close>

theorem live_marker_opens_browser_once:
  assumes "fs0 APP_DIR = Some Dir" "fs0 NODE \<noteq> None" "fs0 NPM \<noteq> None"
    and "fs0 PID_FILE = Some (File content)" "py_int (strip content) = Inr pid"
    and "kill w pid 0 = None" "webbrowser_open w url = None"
  shows "fst (main w n fs0) = Returned 0
       \<and> browser_opens (trace (snd (main w n fs0))) = [''http://localhost:5173'']
       \<and> spawns (trace (snd (main w n fs0))) = 0
       \<and> fs (snd (main w n fs0)) = fs0
       \<and> trace (snd (main w n fs0)) = startup_trace @
            [Print (''Kijko app is already running (PID: '' @ py_str pid @ '')''),
             OpenBrowser ''http://localhost:5173'']"
proof -
  let ?st = "\<lparr>fs = fs0, trace = startup_trace\<rparr>"
  have "preflight w fs0 = check_running w ?st"
    using assms(1-3) by (rule preflight_checks)
  also have "\<dots> = (Some (Returned 0),
      ?st\<lparr>trace := trace ?st @
         [Print (''Kijko app is already running (PID: '' @ py_str pid @ '')''), OpenBrowser url]\<rparr>)"
    using assms(4-7) by (intro check_running_alive) simp_all
  finally have "main w n fs0 = (Returned 0,
      \<lparr>fs = fs0, trace = startup_trace @
         [Print (''Kijko app is already running (PID: '' @ py_str pid @ '')''),
          OpenBrowser ''http://localhost:5173'']\<rparr>)"
    by (simp add: main_def url_eq)
  then show ?thesis
    by (simp add: startup_trace_def banner_lines_def browser_opens_append spawns_append)
qed

theorem live_marker_opens_browser_once_witness:
  "fst (main live_world 0 (fs_marked (''4242'' @ [CHR 0x0A]))) = Returned 0
   \<and> browser_opens (trace (snd (main live_world 0 (fs_marked (''4242'' @ [CHR 0x0A])))))
       = [''http://localhost:5173'']
   \<and> spawns (trace (snd (main live_world 0 (fs_marked (''4242'' @ [CHR 0x0A]))))) = 0
   \<and> fs (snd (main live_world 0 (fs_marked (''4242'' @ [CHR 0x0A])))) PID_FILE
       = Some (File (''4242'' @ [CHR 0x0A]))"
proof -
  let ?fs = "fs_marked (''4242'' @ [CHR 0x0A])"
  have 1: "?fs APP_DIR = Some Dir" "?fs NODE \<noteq> None" "?fs NPM \<noteq> None"
    and 2: "?fs PID_FILE = Some (File (''4242'' @ [CHR 0x0A]))"
    by (simp_all add: fs_marked_def fs_ready_def path_defs)
  have 3: "py_int (strip (''4242'' @ [CHR 0x0A])) = Inr 4242"
    by (simp add: py_int_defs)
  have 4: "kill live_world 4242 0 = None" "webbrowser_open live_world url = None"
    by (simp_all add: live_world_def calm_world_def)
  note t = live_marker_opens_browser_once [OF 1 2 3 4, of 0]
  have "fs (snd (main live_world 0 ?fs)) PID_FILE = Some (File (''4242'' @ [CHR 0x0A]))"
    using t [THEN conjunct2, THEN conjunct2, THEN conjunct2, THEN conjunct1] 2 by simp
  with t [THEN conjunct1] t [THEN conjunct2, THEN conjunct1]
    t [THEN conjunct2, THEN conjunct2, THEN conjunct1]
  show ?thesis by blast
qed

text \<open>
  C2. The claim asks that a marker holding a valid integer that names no live process
  be deleted and a fresh child spawned. The code tells a stale marker only by an
  \<open>OSError\<close> from \<open>os.kill(pid, 0)\<close> (line 50, under the comment \<open>Process
  doesn't exist, remove stale PID file\<close>). With the marker text
  \<open>99999999999999999999\<close>, which \<open>int\<close> accepts and which names no process, the
  probe raises \<open>OverflowError\<close>; neither the handler of line 50 nor that of line 53
  takes it, so it leaves \<open>main\<close>: the marker is still there, nothing was removed and
  nothing was spawned.
\<close>

theorem out_of_range_marker_escapes:
  "py_int (strip ''99999999999999999999'') = Inr 99999999999999999999
   \<and> fst (main c_pid_world 5 (fs_marked ''99999999999999999999'')) =
       Raised (Exn OtherException ''Python int too large to convert to C long'')
   \<and> fs (snd (main c_pid_world 5 (fs_marked ''99999999999999999999''))) PID_FILE =
       Some (File ''99999999999999999999'')
   \<and> removes (trace (snd (main c_pid_world 5 (fs_marked ''99999999999999999999'')))) = []
   \<and> spawns (trace (snd (main c_pid_world 5 (fs_marked ''99999999999999999999'')))) = 0"
proof -
  let ?fs = "fs_marked ''99999999999999999999''"
  let ?e = "Exn OtherException ''Python int too large to convert to C long''"
  have 1: "?fs APP_DIR = Some Dir" "?fs NODE \<noteq> None" "?fs NPM \<noteq> None"
    and 2: "?fs PID_FILE = Some (File ''99999999999999999999'')"
    by (simp_all add: fs_marked_def fs_ready_def path_defs)
  have 3: "py_int (strip ''99999999999999999999'') = Inr 99999999999999999999"
    by (simp add: py_int_defs)
  have 4: "kill c_pid_world 99999999999999999999 0 = Some ?e"
    by (simp add: c_pid_world_def calm_world_def)
  have "preflight c_pid_world ?fs = check_running c_pid_world \<lparr>fs = ?fs, trace = startup_trace\<rparr>"
    using 1 by (rule preflight_checks)
  also have "\<dots> = (Some (Raised ?e), \<lparr>fs = ?fs, trace = startup_trace\<rparr>)"
    using 2 3 4 by (intro check_running_probe_escapes) simp_all
  finally have m: "main c_pid_world 5 ?fs = (Raised ?e, \<lparr>fs = ?fs, trace = startup_trace\<rparr>)"
    by (simp add: main_def)
  have "removes startup_trace = []" "spawns startup_trace = 0"
    by (simp_all add: startup_trace_def banner_lines_def)
  with 2 3 show ?thesis by (simp add: m)
qed

text \<open>
  The same probe answers for the identifier 0, which addresses the caller's own
  process group: a marker holding \<open>0\<close> makes \<open>main\<close> report a running application
  and return 0 without a spawn, and the marker stays.
\<close>

lemma zero_marker_reports_running:
  "py_int (strip ''0'') = Inr 0
   \<and> fst (main c_pid_world 5 (fs_marked ''0'')) = Returned 0
   \<and> fs (snd (main c_pid_world 5 (fs_marked ''0''))) PID_FILE = Some (File ''0'')
   \<and> spawns (trace (snd (main c_pid_world 5 (fs_marked ''0'')))) = 0"
proof -
  let ?fs = "fs_marked ''0''"
  have 1: "?fs APP_DIR = Some Dir" "?fs NODE \<noteq> None" "?fs NPM \<noteq> None"
    and 2: "?fs PID_FILE = Some (File ''0'')"
    by (simp_all add: fs_marked_def fs_ready_def path_defs)
  have 3: "py_int (strip ''0'') = Inr 0"
    by (simp add: py_int_defs)
  have 4: "kill c_pid_world 0 0 = None" "webbrowser_open c_pid_world url = None"
    by (simp_all add: c_pid_world_def calm_world_def)
  have "preflight c_pid_world ?fs = check_running c_pid_world \<lparr>fs = ?fs, trace = startup_trace\<rparr>"
    using 1 by (rule preflight_checks)
  also have "\<dots> = (Some (Returned 0),
      \<lparr>fs = ?fs, trace = startup_trace\<rparr>\<lparr>trace := trace \<lparr>fs = ?fs, trace = startup_trace\<rparr> @
         [Print (''Kijko app is already running (PID: '' @ py_str 0 @ '')''), OpenBrowser url]\<rparr>)"
    using 2 3 4 by (intro check_running_alive) simp_all
  finally have m: "main c_pid_world 5 ?fs = (Returned 0,
      \<lparr>fs = ?fs, trace = startup_trace @
         [Print (''Kijko app is already running (PID: '' @ py_str 0 @ '')''), OpenBrowser url]\<rparr>)"
    by (simp add: main_def)
  have "spawns startup_trace = 0"
    by (simp add: startup_trace_def banner_lines_def)
  with 2 3 show ?thesis by (simp add: m spawns_append)
qed

text \<open>
  The case that line 50 does handle: when the checks of the executables pass, the
  marker file holds text that parses to an integer \<open>pid\<close>, and the liveness probe
  \<open>os.kill(pid, 0)\<close> raises an \<open>OSError\<close> (no such process), \<open>main\<close> deletes the
  marker file and goes on with the spawn from the state in which the marker is gone;
  when the spawn gives a child, the trace is the start-up, the removal of the marker,
  the start message and then the spawn.
\<close>

lemma stale_marker_removed_then_spawn:
  assumes "fs0 APP_DIR = Some Dir" "fs0 NODE \<noteq> None" "fs0 NPM \<noteq> None"
    and "fs0 PID_FILE = Some (File content)" "py_int (strip content) = Inr pid"
    and "kill w pid 0 = Some e" "is_OSError e"
  shows "main w n fs0 =
           spawn_and_monitor w n \<lparr>fs = fs0(PID_FILE := None), trace = startup_trace @ [Remove PID_FILE]\<rparr>
       \<and> (\<forall>child. popen w argv APP_DIR (child_env w) = Inr child \<longrightarrow>
            (\<exists>evs. trace (snd (main w n fs0)) =
               startup_trace @ [Remove PID_FILE, Print ''Starting Kijko app...'',
                                Spawn argv APP_DIR (child_env w)] @ evs))"
proof -
  let ?st = "\<lparr>fs = fs0, trace = startup_trace\<rparr>"
  let ?st' = "\<lparr>fs = fs0(PID_FILE := None), trace = startup_trace @ [Remove PID_FILE]\<rparr>"
  have "preflight w fs0 = check_running w ?st"
    using assms(1-3) by (rule preflight_checks)
  also have "\<dots> = (None, ?st\<lparr>fs := (fs ?st)(PID_FILE := None), trace := trace ?st @ [Remove PID_FILE]\<rparr>)"
    using assms(4-7) by (intro check_running_stale) simp_all
  finally have m: "main w n fs0 = spawn_and_monitor w n ?st'"
    by (simp add: main_def)
  have "\<exists>evs. trace (snd (main w n fs0)) =
               startup_trace @ [Remove PID_FILE, Print ''Starting Kijko app...'',
                                Spawn argv APP_DIR (child_env w)] @ evs"
    if "popen w argv APP_DIR (child_env w) = Inr child" for child
    using spawn_and_monitor_begins [OF that, of n ?st'] by (simp add: m)
  with m show ?thesis by blast
qed

lemma stale_marker_removed_then_spawn_witness:
  "main (calm_world 0) 5 (fs_marked ''999999'') =
     spawn_and_monitor (calm_world 0) 5
       \<lparr>fs = (fs_marked ''999999'')(PID_FILE := None), trace = startup_trace @ [Remove PID_FILE]\<rparr>
   \<and> (\<exists>evs. trace (snd (main (calm_world 0) 5 (fs_marked ''999999''))) =
         startup_trace @ [Remove PID_FILE, Print ''Starting Kijko app...'',
                          Spawn argv APP_DIR (child_env (calm_world 0))] @ evs)"
proof -
  let ?fs = "fs_marked ''999999''"
  have 1: "?fs APP_DIR = Some Dir" "?fs NODE \<noteq> None" "?fs NPM \<noteq> None"
    and 2: "?fs PID_FILE = Some (File ''999999'')"
    by (simp_all add: fs_marked_def fs_ready_def path_defs)
  have 3: "py_int (strip ''999999'') = Inr 999999"
    by (simp add: py_int_defs)
  have 4: "kill (calm_world 0) 999999 0 = Some (Exn OtherOSError ''[Errno 3] No such process'')"
    and 5: "is_OSError (Exn OtherOSError ''[Errno 3] No such process'')"
    and 6: "popen (calm_world 0) argv APP_DIR (child_env (calm_world 0)) = Inr 4242"
    by (simp_all add: calm_world_def is_OSError_def)
  note t = stale_marker_removed_then_spawn [OF 1 2 3 4 5, of 5]
  from t 6 show ?thesis by blast
qed

text \<open>
  C3. When the checks of the executables pass and the marker file holds text that
  \<open>int\<close> rejects, \<open>main\<close> does not take the application to be running: it deletes
  the marker file and goes on with the spawn from the state in which the marker is
  gone; when the spawn gives a child, the trace is the start-up, the removal of the
  marker, the start message and then the spawn.
\<close>

theorem invalid_marker_removed_then_spawn:
  assumes "fs0 APP_DIR = Some Dir" "fs0 NODE \<noteq> None" "fs0 NPM \<noteq> None"
    and "fs0 PID_FILE = Some (File content)" "py_int (strip content) = Inl e"
  shows "main w n fs0 =
           spawn_and_monitor w n \<lparr>fs = fs0(PID_FILE := None), trace = startup_trace @ [Remove PID_FILE]\<rparr>
       \<and> browser_opens (startup_trace @ [Remove PID_FILE]) = []
       \<and> (\<forall>child. popen w argv APP_DIR (child_env w) = Inr child \<longrightarrow>
            (\<exists>evs. trace (snd (main w n fs0)) =
               startup_trace @ [Remove PID_FILE, Print ''Starting Kijko app...'',
                                Spawn argv APP_DIR (child_env w)] @ evs))"
proof -
  let ?st = "\<lparr>fs = fs0, trace = startup_trace\<rparr>"
  let ?st' = "\<lparr>fs = fs0(PID_FILE := None), trace = startup_trace @ [Remove PID_FILE]\<rparr>"
  have "preflight w fs0 = check_running w ?st"
    using assms(1-3) by (rule preflight_checks)
  also have "\<dots> = (None, ?st\<lparr>fs := (fs ?st)(PID_FILE := None), trace := trace ?st @ [Remove PID_FILE]\<rparr>)"
    using assms(4,5) by (intro check_running_invalid) simp_all
  finally have m: "main w n fs0 = spawn_and_monitor w n ?st'"
    by (simp add: main_def)
  have "\<exists>evs. trace (snd (main w n fs0)) =
               startup_trace @ [Remove PID_FILE, Print ''Starting Kijko app...'',
                                Spawn argv APP_DIR (child_env w)] @ evs"
    if "popen w argv APP_DIR (child_env w) = Inr child" for child
    using spawn_and_monitor_begins [OF that, of n ?st'] by (simp add: m)
  moreover have "browser_opens (startup_trace @ [Remove PID_FILE]) = []"
    by (simp add: startup_trace_def banner_lines_def)
  ultimately show ?thesis using m by blast
qed

theorem invalid_marker_removed_then_spawn_witness:
  "main (calm_world 0) 5 (fs_marked ''12 34'') =
     spawn_and_monitor (calm_world 0) 5
       \<lparr>fs = (fs_marked ''12 34'')(PID_FILE := None), trace = startup_trace @ [Remove PID_FILE]\<rparr>
   \<and> (\<exists>evs. trace (snd (main (calm_world 0) 5 (fs_marked ''12 34''))) =
         startup_trace @ [Remove PID_FILE, Print ''Starting Kijko app...'',
                          Spawn argv APP_DIR (child_env (calm_world 0))] @ evs)"
proof -
  let ?fs = "fs_marked ''12 34''"
  have 1: "?fs APP_DIR = Some Dir" "?fs NODE \<noteq> None" "?fs NPM \<noteq> None"
    and 2: "?fs PID_FILE = Some (File ''12 34'')"
    by (simp_all add: fs_marked_def fs_ready_def path_defs)
  have 3: "py_int (strip ''12 34'') = Inl (Exn ValueError ''invalid literal for int() with base 10'')"
    by (simp add: py_int_defs)
  have 6: "popen (calm_world 0) argv APP_DIR (child_env (calm_world 0)) = Inr 4242"
    by (simp add: calm_world_def)
  note t = invalid_marker_removed_then_spawn [OF 1 2 3, of "calm_world 0" 5]
  from t 6 show ?thesis by blast
qed




text \<open>
  C5. When the run reaches the spawn, the spawn, the delay and the opening of the
  browser succeed, and the child is seen to have exited in iteration \<open>k\<close> of the loop
  (the read gives the empty string and the poll an exit status, after \<open>k\<close> iterations
  that neither raise nor break), then with more than \<open>k\<close> iterations allowed \<open>main\<close>
  returns 0, the marker file is gone, and its removal is the last effect. The clean-up
  of lines 108 and 109 itself leaves no marker and raises nothing, whether the marker
  is still present or not.
\<close>

theorem child_exit_removes_marker:
  assumes "reaches_spawn w fs0"
    and "popen w argv APP_DIR (child_env w) = Inr pid"
    and "sleep w 3 = None" "webbrowser_open w url = None"
    and "child_exits_at w k" "k < n"
  shows "fst (main w n fs0) = Returned 0
       \<and> fs (snd (main w n fs0)) PID_FILE = None
       \<and> last (trace (snd (main w n fs0))) = Remove PID_FILE
       \<and> (\<forall>s. fs s PID_FILE \<noteq> Some Dir \<longrightarrow>
             fst (cleanup s) = None \<and> fs (snd (cleanup s)) PID_FILE = None)"
proof -
  define st where "st = prints [''Starting Kijko app...''] (snd (preflight w fs0))"
  have marker: "fs st PID_FILE = None"
    using reaches_spawn_marker [OF assms(1)] by (simp add: st_def prints_def)
  note rc = run_child_exit [OF assms(2) marker assms(3-6)]
  have m: "main w n fs0 = (Returned 0, snd (run_child w n st))"
    using rc(1) by (simp add: main_reaches_spawn [OF assms(1)] spawn_and_monitor_exit st_def)
  obtain evs where "trace (snd (run_child w n st)) =
      trace st @ launch_events w pid @ evs @ [Remove PID_FILE]"
    using rc(3) by blast
  then have "last (trace (snd (main w n fs0))) = Remove PID_FILE"
    by (simp add: m)
  moreover have "fs (snd (main w n fs0)) PID_FILE = None"
    by (simp add: m rc(2))
  ultimately show ?thesis using m cleanup_ok by simp
qed

theorem child_exit_removes_marker_witness:
  "fst (main (calm_world 0) 2 fs_ready) = Returned 0
   \<and> fs (snd (main (calm_world 0) 2 fs_ready)) PID_FILE = None
   \<and> last (trace (snd (main (calm_world 0) 2 fs_ready))) = Remove PID_FILE"
proof -
  have 1: "popen (calm_world 0) argv APP_DIR (child_env (calm_world 0)) = Inr 4242"
    and 2: "sleep (calm_world 0) 3 = None" "webbrowser_open (calm_world 0) url = None"
    by (simp_all add: calm_world_def)
  have 3: "child_exits_at (calm_world 0) (Suc 0)"
    by (simp add: child_exits_at_def streams_until_def keeps_streaming_def calm_world_def)
  have 4: "Suc 0 < (2::nat)" by simp
  note t = child_exit_removes_marker [OF reaches_spawn_ready 1 2 3 4]
  from t show ?thesis by blast
qed

text \<open>
  C6. When the run reaches the spawn and the spawn, the delay and the opening of the
  browser succeed, the effects that follow those of the checks are, in this order and
  with nothing in between: the start message, the spawn, the write of the child's
  decimal process identifier to the marker file, three messages, the sleep of 3, a
  message, the opening of the browser at \<open>http://localhost:5173\<close>, two messages.
  No read of the child's output is among the effects of the checks, so every read
  comes after the opening of the browser; and when at least one iteration is allowed
  and the first read returns, that read is the very next effect.
\<close>

theorem spawn_effects_in_order:
  assumes "reaches_spawn w fs0"
    and "popen w argv APP_DIR (child_env w) = Inr pid"
    and "sleep w 3 = None" "webbrowser_open w url = None"
  shows "(\<exists>rest. trace (snd (main w n fs0)) =
            trace (snd (preflight w fs0)) @
            [Print ''Starting Kijko app...'',
             Spawn argv APP_DIR (child_env w),
             Write PID_FILE (py_str pid),
             Print (''Kijko app started with PID: '' @ py_str pid),
             Print (''PID saved to '' @ PID_FILE),
             Print ''Waiting for server to start...'',
             Sleep 3,
             Print ''Opening browser...'',
             OpenBrowser ''http://localhost:5173'',
             Print ''Kijko app is now running!'',
             Print ''Use the close button in the app or run kill-kijko.sh to stop it.''] @ rest
          \<and> (0 < n \<and> (\<exists>s. readline w 0 = Inr s) \<longrightarrow> rest \<noteq> [] \<and> hd rest = ReadLine))
       \<and> reads (trace (snd (preflight w fs0))) = 0"
proof -
  let ?st = "snd (preflight w fs0)"
  have nd: "fs ?st PID_FILE \<noteq> Some Dir"
    using reaches_spawn_marker [OF assms(1)] by simp
  have le: "Print ''Starting Kijko app...'' # launch_events w pid =
            [Print ''Starting Kijko app...'',
             Spawn argv APP_DIR (child_env w),
             Write PID_FILE (py_str pid),
             Print (''Kijko app started with PID: '' @ py_str pid),
             Print (''PID saved to '' @ PID_FILE),
             Print ''Waiting for server to start...'',
             Sleep 3,
             Print ''Opening browser...'',
             OpenBrowser ''http://localhost:5173'',
             Print ''Kijko app is now running!'',
             Print ''Use the close button in the app or run kill-kijko.sh to stop it.'']"
    by (simp add: launch_events_def url_eq)
  have m: "main w n fs0 = spawn_and_monitor w n ?st"
    by (rule main_reaches_spawn [OF assms(1)])
  have "\<exists>rest. trace (snd (main w n fs0)) =
            trace ?st @ (Print ''Starting Kijko app...'' # launch_events w pid) @ rest
          \<and> (0 < n \<and> (\<exists>s. readline w 0 = Inr s) \<longrightarrow> rest \<noteq> [] \<and> hd rest = ReadLine)"
  proof (cases "0 < n \<and> (\<exists>s. readline w 0 = Inr s)")
    case True
    then obtain n' s where n: "n = Suc n'" and s: "readline w 0 = Inr s"
      by (cases n) auto
    obtain evs where "trace (snd (spawn_and_monitor w (Suc n') ?st)) =
        trace ?st @ Print ''Starting Kijko app...'' # launch_events w pid @ ReadLine # evs"
      using spawn_and_monitor_first_read [OF assms(2) nd assms(3,4) s] by blast
    then have "trace (snd (main w n fs0)) =
        trace ?st @ (Print ''Starting Kijko app...'' # launch_events w pid) @ (ReadLine # evs)"
      by (simp add: m [unfolded n] n)
    then show ?thesis by (intro exI [of _ "ReadLine # evs"]) simp
  next
    case False
    obtain evs where "trace (snd (spawn_and_monitor w n ?st)) =
        trace ?st @ Print ''Starting Kijko app...'' # launch_events w pid @ evs"
      using spawn_and_monitor_launch [OF assms(2) nd assms(3,4)] by blast
    then have "trace (snd (main w n fs0)) =
        trace ?st @ (Print ''Starting Kijko app...'' # launch_events w pid) @ evs"
      by (simp add: m)
    with False show ?thesis by blast
  qed
  then show ?thesis unfolding le using preflight_reads by blast
qed

theorem spawn_effects_in_order_witness:
  "\<exists>rest. trace (snd (main (calm_world 0) 2 fs_ready)) =
            startup_trace @
            [Print ''Starting Kijko app...'',
             Spawn argv APP_DIR (child_env (calm_world 0)),
             Write PID_FILE ''4242'',
             Print ''Kijko app started with PID: 4242'',
             Print (''PID saved to '' @ PID_FILE),
             Print ''Waiting for server to start...'',
             Sleep 3,
             Print ''Opening browser...'',
             OpenBrowser ''http://localhost:5173'',
             Print ''Kijko app is now running!'',
             Print ''Use the close button in the app or run kill-kijko.sh to stop it.''] @ rest
          \<and> rest \<noteq> [] \<and> hd rest = ReadLine"
proof -
  have 1: "popen (calm_world 0) argv APP_DIR (child_env (calm_world 0)) = Inr 4242"
    and 2: "sleep (calm_world 0) 3 = None" "webbrowser_open (calm_world 0) url = None"
    and 3: "readline (calm_world 0) 0 = Inr (''ready'' @ [CHR 0x0A])"
    by (simp_all add: calm_world_def)
  have 4: "py_str 4242 = ''4242''"
    by (simp add: py_str_def dec.simps digit_char_def)
  have 5: "snd (preflight (calm_world 0) fs_ready) = \<lparr>fs = fs_ready, trace = startup_trace\<rparr>"
    by (subst preflight_no_marker) (simp_all add: fs_ready_def path_defs)
  have 6: "0 < (2::nat) \<and> (\<exists>s. readline (calm_world 0) 0 = Inr s)"
    using 3 by simp
  note t = spawn_effects_in_order [OF reaches_spawn_ready 1 2, of 2, THEN conjunct1]
  from t 6 show ?thesis unfolding 5 by (auto simp: 4)
qed

text \<open>
  C7, as the claim states it, fails: an exception that is not an instance of
  \<open>Exception\<close> passes both handlers. Here the user interrupts the launcher during the
  start-up delay, on the spawn path, and the interrupt leaves \<open>main\<close>.
\<close>

theorem interrupt_during_delay_leaves_main:
  "reaches_spawn interrupted_sleep_world fs_ready
   \<and> raised_in_try interrupted_sleep_world 0 (Exn KeyboardInterrupt [])
   \<and> fst (main interrupted_sleep_world 1 fs_ready) = Raised (Exn KeyboardInterrupt [])"
proof -
  have "raised_in_try interrupted_sleep_world 0 (Exn KeyboardInterrupt [])"
    by (simp add: raised_in_try_def interrupted_sleep_world_def calm_world_def)
  moreover have "fst (main interrupted_sleep_world 1 fs_ready) = Raised (Exn KeyboardInterrupt [])"
    by (subst main_ready)
       (simp add: spawn_and_monitor_def run_child_def start_child_def write_pid_def
          open_write_def emit_def prints_def interrupted_sleep_world_def calm_world_def
          fs_ready_def path_defs is_Exception_def)
  ultimately show ?thesis using reaches_spawn_ready by blast
qed

text \<open>
  C7, amended. On the spawn path, let \<open>e\<close> be the first exception of the \<open>try\<close>
  statement (raised by the spawn, the delay, the opening of the browser, or a read of
  the child's output). If \<open>e\<close> is a \<open>FileNotFoundError\<close>, \<open>main\<close> reports that the
  target could not be executed and returns 1. If \<open>e\<close> is any other instance of
  \<open>Exception\<close>, \<open>main\<close> prints its message and returns 1. If \<open>e\<close> is not an instance
  of \<open>Exception\<close> (\<open>KeyboardInterrupt\<close>, \<open>SystemExit\<close>), it leaves \<open>main\<close>.
\<close>

theorem try_handlers_by_class:
  assumes "reaches_spawn w fs0" "raised_in_try w k e" "k < n"
  shows "(cls e = FileNotFoundError \<longrightarrow>
            fst (main w n fs0) = Returned 1
          \<and> (\<exists>pre. trace (snd (main w n fs0)) =
                pre @ [Print (''Error: Could not execute '' @ NPM),
                       Print ''Please check your Node.js/NPM installation'']))
       \<and> (cls e \<noteq> FileNotFoundError \<and> is_Exception e \<longrightarrow>
            fst (main w n fs0) = Returned 1
          \<and> (\<exists>pre. trace (snd (main w n fs0)) =
                pre @ [Print (''Error starting Kijko app: '' @ msg e)]))
       \<and> (\<not> is_Exception e \<longrightarrow> fst (main w n fs0) = Raised e)"
  using main_raise [OF assms] by (auto simp: prints_def is_Exception_def)

theorem try_handlers_by_class_witness:
  "fst (main no_shell_world 1 fs_ready) = Returned 1
   \<and> (\<exists>pre. trace (snd (main no_shell_world 1 fs_ready)) =
         pre @ [Print (''Error: Could not execute '' @ NPM),
                Print ''Please check your Node.js/NPM installation''])
   \<and> fst (main garbled_world 2 fs_ready) = Returned 1
   \<and> (\<exists>pre. trace (snd (main garbled_world 2 fs_ready)) =
         pre @ [Print ''Error starting Kijko app: invalid start byte''])
   \<and> fst (main interrupted_read_world 1 fs_ready) = Raised (Exn KeyboardInterrupt [])"
proof -
  let ?fnf = "Exn FileNotFoundError (''[Errno 2] No such file or directory: '' @ quoted ''bash'')"
  let ?dec = "Exn ValueError ''invalid start byte''"
  let ?int = "Exn KeyboardInterrupt []"
  have 1: "raised_in_try no_shell_world 0 ?fnf"
    by (simp add: raised_in_try_def no_shell_world_def calm_world_def)
  have 2: "raised_in_try garbled_world (Suc 0) ?dec"
    by (simp add: raised_in_try_def garbled_world_def calm_world_def streams_until_def
        keeps_streaming_def)
  have 3: "raised_in_try interrupted_read_world 0 ?int"
    by (simp add: raised_in_try_def interrupted_read_world_def calm_world_def streams_until_def)
  have c: "cls ?fnf = FileNotFoundError" "cls ?dec \<noteq> FileNotFoundError \<and> is_Exception ?dec"
    "\<not> is_Exception ?int" "msg ?dec = ''invalid start byte''"
    by (simp_all add: is_Exception_def)
  have k: "0 < (1::nat)" "Suc 0 < (2::nat)" by simp_all
  from try_handlers_by_class [OF reaches_spawn_ready 1 k(1)]
    try_handlers_by_class [OF reaches_spawn_ready 2 k(2)]
    try_handlers_by_class [OF reaches_spawn_ready 3 k(1)] c
  show ?thesis by (simp only: simp_thms append.simps)
qed

text \<open>
  C8, as the claim states it, fails in its exit code: an interrupt that arrives while
  the launcher waits for the child's output, after the marker was written, is not an
  instance of \<open>Exception\<close>; it leaves \<open>main\<close>, which therefore does not return 1.
\<close>

theorem interrupt_during_read_not_returned:
  "popen interrupted_read_world argv APP_DIR (child_env interrupted_read_world) = Inr 4242
   \<and> raised_in_try interrupted_read_world 0 (Exn KeyboardInterrupt [])
   \<and> fst (main interrupted_read_world 1 fs_ready) \<noteq> Returned 1"
proof -
  have "fst (main interrupted_read_world 1 fs_ready) = Raised (Exn KeyboardInterrupt [])"
    by (subst main_ready)
       (simp add: spawn_and_monitor_def run_child_def start_child_def write_pid_def
          open_write_def emit_def prints_def interrupted_read_world_def calm_world_def
          fs_ready_def path_defs is_Exception_def)
  then show ?thesis
    by (simp add: raised_in_try_def interrupted_read_world_def calm_world_def streams_until_def)
qed

text \<open>
  C8, amended. On the spawn path, when the spawn gave child \<open>pid\<close> and an exception
  \<open>e\<close> is then raised by the delay, by the opening of the browser or by a read of the
  child's output, \<open>main\<close> removes nothing after the checks and the marker file is
  still there at the end, holding the decimal text of \<open>pid\<close>. \<open>main\<close> returns 1 when
  \<open>e\<close> is an instance of \<open>Exception\<close>; otherwise \<open>e\<close> leaves \<open>main\<close>.
\<close>

theorem failure_after_write_keeps_marker:
  assumes "reaches_spawn w fs0"
    and "popen w argv APP_DIR (child_env w) = Inr pid"
    and "raised_in_try w k e" "k < n"
  shows "fs (snd (main w n fs0)) PID_FILE = Some (File (py_str pid))
       \<and> removes (trace (snd (main w n fs0))) = removes (trace (snd (preflight w fs0)))
       \<and> (is_Exception e \<longrightarrow> fst (main w n fs0) = Returned 1)
       \<and> (\<not> is_Exception e \<longrightarrow> fst (main w n fs0) = Raised e)"
proof -
  define st where "st = prints [''Starting Kijko app...''] (snd (preflight w fs0))"
  define st1 where "st1 = snd (run_child w n st)"
  have marker: "fs st PID_FILE = None"
    using reaches_spawn_marker [OF assms(1)] by (simp add: st_def prints_def)
  have f: "fs st1 = (fs st)(PID_FILE \<mapsto> File (py_str pid))"
    unfolding st1_def using marker assms(3,4,2) by (rule run_child_raise(2))
  obtain evs where evs: "trace st1 = trace st @ evs" "removes evs = []"
    unfolding st1_def using run_child_raise(3) [OF marker assms(3,4)] by blast
  have r: "removes (trace st1) = removes (trace (snd (preflight w fs0)))"
    by (simp add: evs removes_append st_def prints_def)
  note m = main_raise [OF assms(1,3,4), folded st_def, folded st1_def]
  show ?thesis
    by (auto simp: m f r prints_def removes_append is_Exception_def)
qed

theorem failure_after_write_keeps_marker_witness:
  "fs (snd (main garbled_world 2 fs_ready)) PID_FILE = Some (File ''4242'')
   \<and> removes (trace (snd (main garbled_world 2 fs_ready))) = []
   \<and> fst (main garbled_world 2 fs_ready) = Returned 1
   \<and> fs (snd (main interrupted_sleep_world 1 fs_ready)) PID_FILE = Some (File ''4242'')
   \<and> fst (main interrupted_sleep_world 1 fs_ready) = Raised (Exn KeyboardInterrupt [])"
proof -
  let ?dec = "Exn ValueError ''invalid start byte''"
  let ?int = "Exn KeyboardInterrupt []"
  have p: "popen garbled_world argv APP_DIR (child_env garbled_world) = Inr 4242"
    "popen interrupted_sleep_world argv APP_DIR (child_env interrupted_sleep_world) = Inr 4242"
    by (simp_all add: garbled_world_def interrupted_sleep_world_def calm_world_def)
  have 1: "raised_in_try garbled_world (Suc 0) ?dec"
    by (simp add: raised_in_try_def garbled_world_def calm_world_def streams_until_def
        keeps_streaming_def)
  have 2: "raised_in_try interrupted_sleep_world 0 ?int"
    by (simp add: raised_in_try_def interrupted_sleep_world_def calm_world_def)
  have c: "is_Exception ?dec" "\<not> is_Exception ?int"
    by (simp_all add: is_Exception_def)
  have k: "0 < (1::nat)" "Suc 0 < (2::nat)" by simp_all
  have s: "py_str 4242 = ''4242''"
    by (simp add: py_str_def dec.simps digit_char_def)
  have t: "removes (trace (snd (preflight w fs_ready))) = []" for w
    by (subst preflight_no_marker)
       (simp_all add: fs_ready_def path_defs startup_trace_def banner_lines_def)
  from failure_after_write_keeps_marker [OF reaches_spawn_ready p(1) 1 k(2)]
    failure_after_write_keeps_marker [OF reaches_spawn_ready p(2) 2 k(1)] c
  show ?thesis by (simp only: simp_thms s t)
qed

text \<open>
  C9. When the run reaches the spawn, the spawn, the delay and the opening of the
  browser succeed, and in iteration \<open>k\<close> of the loop the read gives the empty string
  and the poll gives the exit status \<open>status\<close> (after \<open>k\<close> iterations that neither
  raise nor break), then with more than \<open>k\<close> iterations allowed \<open>main\<close> returns 0,
  whatever \<open>status\<close> is.
\<close>

theorem any_exit_status_returns_0:
  assumes "reaches_spawn w fs0"
    and "popen w argv APP_DIR (child_env w) = Inr pid"
    and "sleep w 3 = None" "webbrowser_open w url = None"
    and "streams_until w k" "readline w k = Inr []" "poll w k = Some status" "k < n"
  shows "fst (main w n fs0) = Returned 0"
proof -
  define st where "st = prints [''Starting Kijko app...''] (snd (preflight w fs0))"
  have marker: "fs st PID_FILE = None"
    using reaches_spawn_marker [OF assms(1)] by (simp add: st_def prints_def)
  have "child_exits_at w k"
    using assms(5-7) by (simp add: child_exits_at_def)
  then have "fst (run_child w n st) = None"
    using assms(2-4,8) marker by (intro run_child_exit(1))
  then show ?thesis
    by (simp add: main_reaches_spawn [OF assms(1)] spawn_and_monitor_exit st_def)
qed

theorem any_exit_status_returns_0_witness:
  "fst (main (calm_world 1) 2 fs_ready) = Returned 0
   \<and> fst (main (calm_world (- 15)) 2 fs_ready) = Returned 0"
proof -
  have 1: "popen (calm_world s) argv APP_DIR (child_env (calm_world s)) = Inr 4242"
    and 2: "sleep (calm_world s) 3 = None" "webbrowser_open (calm_world s) url = None"
    and 3: "streams_until (calm_world s) (Suc 0)" "readline (calm_world s) (Suc 0) = Inr []"
      "poll (calm_world s) (Suc 0) = Some s" for s
    by (simp_all add: calm_world_def streams_until_def keeps_streaming_def)
  have 4: "Suc 0 < (2::nat)" by simp
  show ?thesis
    using any_exit_status_returns_0 [OF reaches_spawn_ready 1 2 3 4, of 1]
      any_exit_status_returns_0 [OF reaches_spawn_ready 1 2 3 4, of "- 15"]
    by blast
qed

text \<open>
  C10. For every integer \<open>pid\<close> and every state in which the marker path is not a
  directory, writing the marker as lines 82 and 83 do succeeds, and reading it back as
  lines 41 and 42 do (read, strip, parse) gives \<open>pid\<close> again; in particular the
  decimal text of \<open>pid\<close> parses to \<open>pid\<close>.
\<close>

theorem pid_text_round_trip:
  "py_int (strip (py_str pid)) = Inr pid
   \<and> (fs st PID_FILE \<noteq> Some Dir \<longrightarrow>
        (\<exists>st'. write_pid pid st = Inr st' \<and> read_pid st' = Inr pid))"
proof -
  have "write_pid pid st = Inr (st\<lparr>fs := (fs st)(PID_FILE \<mapsto> File (py_str pid)),
                                  trace := trace st @ [Write PID_FILE (py_str pid)]\<rparr>)"
    if "fs st PID_FILE \<noteq> Some Dir"
    using that
    by (cases "fs st PID_FILE"; cases "the (fs st PID_FILE)")
       (simp_all add: write_pid_def open_write_def)
  then show ?thesis
    by (simp add: read_pid_def open_read_def py_int_py_str)
qed

theorem pid_text_round_trip_witness:
  "py_int (strip (py_str 4242)) = Inr 4242
   \<and> (\<exists>st'. write_pid 4242 \<lparr>fs = fs_ready, trace = []\<rparr> = Inr st' \<and> read_pid st' = Inr 4242)"
proof -
  have "fs \<lparr>fs = fs_ready, trace = []\<rparr> PID_FILE \<noteq> Some Dir"
    by (simp add: fs_ready_def path_defs)
  then show ?thesis
    using pid_text_round_trip [of 4242 "\<lparr>fs = fs_ready, trace = []\<rparr>"] by blast
qed

end
